theory Spec2Isabelle
  imports Main "HOL-Library.Word"
begin

section \<open>The OpenSSL based PKCS\#7 container (openssl\_pkcs7.c)\<close>

text \<open>
  The file wraps a CMS structure decoded by OpenSSL in a container object. Everything it
  computes itself is modelled here: the classification of the content type in
  \<open>parse\<close>, the argument loop of \<open>openssl_pkcs7_load\<close>, \<open>get_data\<close>, and the
  lazy signature enumerator with its two checks \<open>verify_signature\<close> and
  \<open>verify_digest\<close>.

  The functions it calls in OpenSSL and in the rest of the library (the decoder, the
  OID table, the credential manager, hashers, public keys) are not part of the file.
  They are collected in the record \<open>externals\<close> and passed to every function, so each
  statement below holds for whatever these collaborators compute.
\<close>

subsection \<open>Data\<close>

type_synonym chunk_t = "8 word list"

text \<open>
  An \<open>ASN1_STRING\<close> object; a pointer to one that the source hands on without testing
  it is an \<open>ASN1_STRING option\<close>, \<open>None\<close> being \<open>NULL\<close>.
\<close>

datatype ASN1_STRING = ASN1_STRING chunk_t

type_synonym ASN1_OBJECT = "nat list"

datatype X509_NAME = X509_NAME chunk_t

datatype X509_ATTRIBUTE = X509_ATTRIBUTE ASN1_OBJECT "chunk_t list"

text \<open>
  The values of \<open>openssl_asn1_known_oid\<close> that the file names, and every other entry of
  the OID table (with \<open>OID_UNKNOWN\<close>) under its number.
\<close>

datatype known_oid =
    OID_RSA_ENCRYPTION
  | OID_PKCS7_DATA
  | OID_PKCS7_SIGNED_DATA
  | OID_PKCS7_ENVELOPED_DATA
  | OID_OTHER int

text \<open>
  The container types the file names; \<open>CONTAINER_OTHER\<close> stands for the remaining
  values of the enumeration, which the \<open>default\<close> branch of \<open>get_data\<close> covers.
\<close>

datatype container_type_t =
    CONTAINER_PKCS7_DATA
  | CONTAINER_PKCS7_SIGNED_DATA
  | CONTAINER_PKCS7_ENVELOPED_DATA
  | CONTAINER_OTHER

type_synonym hash_algorithm_t = int
type_synonym signature_scheme_t = int

datatype key_type_t = KEY_RSA | KEY_OTHER

datatype id_type_t = ID_KEY_ID | ID_OTHER

datatype identification_t = Identification id_type_t chunk_t

datatype auth_cfg_t = Auth_cfg string

datatype nid_t = NID_pkcs9_messageDigest | NID_OTHER int

datatype asn1_type_t = V_ASN1_OCTET_STRING | V_ASN1_OTHER int

text \<open>Objects with methods are records of their methods.\<close>

record public_key_t =
  key_verify :: "signature_scheme_t \<Rightarrow> chunk_t \<Rightarrow> chunk_t \<Rightarrow> bool"

record certificate_t =
  get_issuer :: identification_t
  get_public_key :: "public_key_t option"

record hasher_t =
  allocate_hash :: "chunk_t \<Rightarrow> chunk_t option"

text \<open>
  \<open>struct CMS_SignerInfo_st\<close> as the file declares it. \<open>sid\<close> is a \<open>void *\<close>
  there, read through \<open>CMS_SignerInfo_get0_signer_id\<close> only. The two algorithm fields
  hold the \<open>algorithm\<close> member of their \<open>X509_ALGOR\<close>, the only part the file reads.
\<close>

datatype CMS_SignerIdentifier = CMS_SignerIdentifier chunk_t

record CMS_SignerInfo =
  version :: int
  sid :: CMS_SignerIdentifier
  digestAlgorithm :: ASN1_OBJECT
  signedAttrs :: "X509_ATTRIBUTE list"
  signatureAlgorithm :: ASN1_OBJECT
  signature :: "ASN1_STRING option"

text \<open>
  The decoded \<open>CMS_ContentInfo\<close>, seen through the three accessors the file uses:
  \<open>CMS_get0_type\<close>, \<open>CMS_get0_content\<close> (a pointer to the location of the content
  string, or \<open>NULL\<close>; the location itself may hold \<open>NULL\<close>) and
  \<open>CMS_get0_SignerInfos\<close> (the stack of signer infos, or \<open>NULL\<close>).
\<close>

text \<open>
  What \<open>CMS_SignerInfo_get0_signer_id(si, NULL, &name, &snr)\<close> does. It returns
  something other than 1; or it returns 1 and has stored the issuer and the serial number
  of the signer in \<open>name\<close> and \<open>snr\<close>; or, for a signer that is identified by its
  subject key identifier, it returns 1 and has stored nothing, since the call passes no
  place for the key identifier.
\<close>

datatype signer_id_t =
    Signer_id_failed
  | Signer_id_issuer_serial "X509_NAME option" "ASN1_STRING option"
  | Signer_id_keyid

type_synonym addr = nat

record CMS_ContentInfo =
  CMS_get0_type :: ASN1_OBJECT
  CMS_get0_content :: "ASN1_STRING option option"
  CMS_get0_SignerInfos :: "CMS_SignerInfo list option"

record externals =
  d2i_CMS_bio :: "chunk_t \<Rightarrow> CMS_ContentInfo option"
  openssl_asn1_known_oid :: "ASN1_OBJECT \<Rightarrow> known_oid"
  openssl_asn1_str2chunk :: "ASN1_STRING option \<Rightarrow> chunk_t"
  openssl_x509_name2id :: "X509_NAME option \<Rightarrow> identification_t option"
  openssl_i2chunk :: "X509_ATTRIBUTE \<Rightarrow> chunk_t"
  asn1_wrap :: "8 word \<Rightarrow> chunk_t \<Rightarrow> chunk_t"
  CMS_SignerInfo_get0_signer_id :: "CMS_SignerInfo \<Rightarrow> signer_id_t"
  uninitialised_name :: "CMS_SignerInfo \<Rightarrow> X509_NAME option"
  uninitialised_snr :: "CMS_SignerInfo \<Rightarrow> ASN1_STRING option"
  CMS_signed_get0_data_by_OBJ ::
    "CMS_SignerInfo \<Rightarrow> nid_t \<Rightarrow> int \<Rightarrow> asn1_type_t \<Rightarrow> ASN1_STRING option"
  identification_create_from_encoding :: "id_type_t \<Rightarrow> chunk_t \<Rightarrow> identification_t"
  id_equals :: "identification_t \<Rightarrow> identification_t \<Rightarrow> bool"
  create_trusted_enumerator ::
    "key_type_t \<Rightarrow> identification_t \<Rightarrow> bool \<Rightarrow> (certificate_t \<times> auth_cfg_t) list"
  signature_scheme_from_oid :: "known_oid \<Rightarrow> signature_scheme_t"
  hasher_algorithm_from_oid :: "known_oid \<Rightarrow> hash_algorithm_t"
  create_hasher :: "hash_algorithm_t \<Rightarrow> hasher_t option"
  openssl_asn1_str2chunk_ptr :: "ASN1_STRING option \<Rightarrow> addr"
  CMS_ContentInfo_free :: "CMS_ContentInfo \<Rightarrow> addr list"

text \<open>
  The last fields, and the two for the locals, are not functions of a collaborator but
  what the code meets in memory. \<open>verify_signature\<close> declares its locals \<open>name\<close> and \<open>snr\<close> without a
  value: \<open>uninitialised_name\<close> and \<open>uninitialised_snr\<close> are what they hold when the
  function is entered for a signer, which C leaves open. A chunk is a pointer with a
  length: \<open>openssl_asn1_str2chunk\<close> gives the bytes of the chunk that the function of
  this name returns, \<open>openssl_asn1_str2chunk_ptr\<close> the address it points to, which
  only \<open>get_data\<close> hands on. \<open>CMS_ContentInfo_free\<close> gives the addresses that the
  call of this name releases.
\<close>

text \<open>
  What a call does besides returning: a line written with \<open>DBG1\<close> (the format string
  and its arguments), an authorization context created by \<open>auth->clone\<close>, and one
  released by \<open>DESTROY_IF(this->auth)\<close>. Every function returns the effects it had,
  in order.
\<close>

datatype effect =
    DBG1 string "int list"
  | Auth_clone auth_cfg_t
  | Auth_destroy auth_cfg_t

text \<open>
  Modelled from the spec: \<open>chunk_equals\<close> is declared outside the file; the spec has
  the two chunks compared byte for byte.
\<close>

definition chunk_equals :: "chunk_t \<Rightarrow> chunk_t \<Rightarrow> bool" where
  "chunk_equals a b = (a = b)"

text \<open>
  The allocated memory, for the one place where the file hands a pointer to its caller:
  the contents of the live allocations, and the first address that was never allocated.
  A chunk with its pointer is a \<open>located_chunk\<close>.
\<close>

record memory =
  mem_next :: addr
  mem_live :: "addr \<Rightarrow> chunk_t option"

record located_chunk =
  chunk_ptr :: addr
  chunk_bytes :: chunk_t

text \<open>
  Modelled from the spec: \<open>chunk_clone\<close> is declared outside the file; the spec has
  it give a copy of the bytes that is independent of the container. The copy is a new
  allocation holding the bytes of the chunk.
\<close>

definition chunk_clone :: "memory \<Rightarrow> located_chunk \<Rightarrow> located_chunk \<times> memory" where
  "chunk_clone m c =
     (\<lparr>chunk_ptr = mem_next m, chunk_bytes = chunk_bytes c\<rparr>,
      m\<lparr>mem_next := mem_next m + 1,
        mem_live := (mem_live m)(mem_next m := Some (chunk_bytes c))\<rparr>)"

definition chunk_cat :: "chunk_t \<Rightarrow> chunk_t \<Rightarrow> chunk_t" where
  "chunk_cat a b = a @ b"

subsection \<open>verify\_signature\<close>

text \<open>The \<open>for\<close> loop that concatenates the encodings of the signed attributes.\<close>

fun reconstruct_attrs :: "externals \<Rightarrow> X509_ATTRIBUTE list \<Rightarrow> chunk_t \<Rightarrow> chunk_t" where
  "reconstruct_attrs ext [] attrs = attrs"
| "reconstruct_attrs ext (a # as) attrs =
     reconstruct_attrs ext as (chunk_cat attrs (openssl_i2chunk ext a))"

text \<open>
  The \<open>while\<close> loop over the trusted enumerator. It returns \<open>found\<close> and the
  candidates the enumerator had not yet produced when the loop was left.
\<close>

fun trusted_loop ::
  "externals \<Rightarrow> identification_t \<Rightarrow> signature_scheme_t \<Rightarrow> chunk_t \<Rightarrow> chunk_t \<Rightarrow>
   (certificate_t \<times> auth_cfg_t) list \<Rightarrow> auth_cfg_t option \<times> (certificate_t \<times> auth_cfg_t) list" where
  "trusted_loop ext issuer scheme attrs sig [] = (None, [])"
| "trusted_loop ext issuer scheme attrs sig ((cert, auth) # rest) =
     (if id_equals ext issuer (get_issuer cert) then
        (case get_public_key cert of
           Some key \<Rightarrow>
             if key_verify key scheme attrs sig then (Some auth, rest)
             else trusted_loop ext issuer scheme attrs sig rest
         | None \<Rightarrow> trusted_loop ext issuer scheme attrs sig rest)
      else trusted_loop ext issuer scheme attrs sig rest)"

text \<open>
  The locals \<open>name\<close> and \<open>snr\<close> after the call of
  \<open>CMS_SignerInfo_get0_signer_id\<close>, when it returned 1: what the call stored, or, when
  it stored nothing, what the locals held before. \<open>None\<close> is a result other than 1.
\<close>

definition signer_id_locals ::
  "externals \<Rightarrow> CMS_SignerInfo \<Rightarrow> (X509_NAME option \<times> ASN1_STRING option) option" where
  "signer_id_locals ext si =
     (case CMS_SignerInfo_get0_signer_id ext si of
        Signer_id_failed \<Rightarrow> None
      | Signer_id_issuer_serial name snr \<Rightarrow> Some (name, snr)
      | Signer_id_keyid \<Rightarrow> Some (uninitialised_name ext si, uninitialised_snr ext si))"

definition verify_signature ::
  "externals \<Rightarrow> CMS_SignerInfo \<Rightarrow> known_oid \<Rightarrow> auth_cfg_t option \<times> effect list" where
  "verify_signature ext si hash_oid =
     (case signer_id_locals ext si of
        None \<Rightarrow> (None, [])
      | Some (name, snr) \<Rightarrow>
          (case openssl_x509_name2id ext name of
             None \<Rightarrow> (None, [])
           | Some issuer \<Rightarrow>
               let serial = identification_create_from_encoding ext ID_KEY_ID
                              (openssl_asn1_str2chunk ext snr);
                   attrs = asn1_wrap ext 0x31 (reconstruct_attrs ext (signedAttrs si) []);
                   sig = openssl_asn1_str2chunk ext (signature si);
                   found = fst (trusted_loop ext issuer (signature_scheme_from_oid ext hash_oid)
                                  attrs sig (create_trusted_enumerator ext KEY_RSA serial False))
               in (case found of
                     None \<Rightarrow> (None, [])
                   | Some auth \<Rightarrow> (Some auth, [Auth_clone auth]))))"

subsection \<open>verify\_digest\<close>

definition verify_digest ::
  "externals \<Rightarrow> CMS_ContentInfo \<Rightarrow> CMS_SignerInfo \<Rightarrow> known_oid \<Rightarrow> bool \<times> effect list" where
  "verify_digest ext c si hash_oid =
     (case CMS_signed_get0_data_by_OBJ ext si NID_pkcs9_messageDigest (- 3) V_ASN1_OCTET_STRING of
        None \<Rightarrow> (False, [])
      | Some os \<Rightarrow>
          (case CMS_get0_content c of
             None \<Rightarrow> (False, [])
           | Some osp \<Rightarrow>
               let digest = openssl_asn1_str2chunk ext (Some os);
                   content = openssl_asn1_str2chunk ext osp;
                   hash_alg = hasher_algorithm_from_oid ext hash_oid
               in (case create_hasher ext hash_alg of
                     None \<Rightarrow> (False, [DBG1 ''hash algorithm %N not supported'' [hash_alg]])
                   | Some hasher \<Rightarrow>
                       (case allocate_hash hasher content of
                          None \<Rightarrow> (False, [])
                        | Some hash \<Rightarrow>
                            if \<not> chunk_equals digest hash
                            then (False, [DBG1 ''invalid messageDigest'' []])
                            else (True, [])))))"

subsection \<open>The signature enumerator\<close>

record signature_enumerator_t =
  enum_signers :: "CMS_SignerInfo list option"
  enum_i :: nat
  enum_auth :: "auth_cfg_t option"
  enum_cms :: CMS_ContentInfo

text \<open>\<open>DESTROY_IF(this->auth); this->auth = NULL;\<close>\<close>

definition destroy_if :: "auth_cfg_t option \<Rightarrow> effect list" where
  "destroy_if a = (case a of None \<Rightarrow> [] | Some x \<Rightarrow> [Auth_destroy x])"

text \<open>
  One round of the \<open>while\<close> loop of \<open>signature_enumerate\<close> on the signer at
  \<open>this->i\<close>: the enumerator after the round, whether the round ended in
  \<open>return TRUE\<close> (otherwise in \<open>continue\<close>), and the effects.
\<close>

definition signature_round ::
  "externals \<Rightarrow> CMS_SignerInfo list \<Rightarrow> signature_enumerator_t \<Rightarrow>
   signature_enumerator_t \<times> bool \<times> effect list" where
  "signature_round ext sk this =
     (let cleanup = destroy_if (enum_auth this);
          this1 = this\<lparr>enum_auth := None\<rparr>;
          si = sk ! enum_i this1;
          this2 = this1\<lparr>enum_i := enum_i this1 + 1\<rparr>;
          hash_oid = openssl_asn1_known_oid ext (digestAlgorithm si)
      in if openssl_asn1_known_oid ext (signatureAlgorithm si) \<noteq> OID_RSA_ENCRYPTION
         then (this2, False, cleanup @ [DBG1 ''only RSA digest encryption supported'' []])
         else
           (case verify_signature ext si hash_oid of
              (found, eff_sig) \<Rightarrow>
                let this3 = this2\<lparr>enum_auth := found\<rparr>
                in if found = None
                   then (this3, False, cleanup @ eff_sig @
                           [DBG1 ''unable to verify pkcs7 attributes signature'' []])
                   else
                     (case verify_digest ext (enum_cms this3) si hash_oid of
                        (ok, eff_dig) \<Rightarrow>
                          if \<not> ok then (this3, False, cleanup @ eff_sig @ eff_dig)
                          else (this3, True, cleanup @ eff_sig @ eff_dig))))"

text \<open>
  The \<open>while\<close> loop. The result is \<open>Some auth\<close> for \<open>return TRUE\<close> with
  \<open>*out = auth\<close>, and \<open>None\<close> for \<open>return FALSE\<close>, which leaves \<open>*out\<close> alone.
\<close>

function signature_loop ::
  "externals \<Rightarrow> CMS_SignerInfo list \<Rightarrow> signature_enumerator_t \<Rightarrow>
   auth_cfg_t option \<times> signature_enumerator_t \<times> effect list" where
  "signature_loop ext sk this =
     (if enum_i this < length sk then
        (case signature_round ext sk this of
           (this', yield, eff) \<Rightarrow>
             if yield then (enum_auth this', this', eff)
             else (case signature_loop ext sk this' of
                     (out, this'', eff') \<Rightarrow> (out, this'', eff @ eff')))
      else (None, this, []))"
  by pat_completeness auto
termination
  by (relation "measure (\<lambda>(ext, sk, this). length sk - enum_i this)")
    (auto simp: signature_round_def Let_def split: if_splits prod.splits)

declare signature_loop.simps [simp del]

definition signature_enumerate ::
  "externals \<Rightarrow> signature_enumerator_t \<Rightarrow>
   auth_cfg_t option \<times> signature_enumerator_t \<times> effect list" where
  "signature_enumerate ext this =
     (case enum_signers this of
        None \<Rightarrow> (None, this, [])
      | Some sk \<Rightarrow> signature_loop ext sk this)"

definition signature_destroy :: "signature_enumerator_t \<Rightarrow> effect list" where
  "signature_destroy this = destroy_if (enum_auth this)"

text \<open>
  Modelled from the spec: \<open>enumerator_create_empty\<close> is defined outside the file; the
  spec has its enumerator signal the end of the sequence at once, with no side effect.
  An enumerator is therefore either a signature enumerator or the empty one.
\<close>

datatype enumerator_t = Signature_enumerator signature_enumerator_t | Empty_enumerator

definition enumerator_create_empty :: enumerator_t where
  "enumerator_create_empty = Empty_enumerator"

text \<open>\<open>enumerator->enumerate(enumerator, &auth)\<close>, dispatched on the object.\<close>

definition enumerate :: "externals \<Rightarrow> enumerator_t \<Rightarrow> auth_cfg_t option \<times> enumerator_t \<times> effect list" where
  "enumerate ext e =
     (case e of
        Empty_enumerator \<Rightarrow> (None, Empty_enumerator, [])
      | Signature_enumerator this \<Rightarrow>
          (case signature_enumerate ext this of
             (out, this', eff) \<Rightarrow> (out, Signature_enumerator this', eff)))"

text \<open>\<open>enumerator->destroy(enumerator)\<close>, dispatched on the object.\<close>

definition enumerator_destroy :: "enumerator_t \<Rightarrow> effect list" where
  "enumerator_destroy e =
     (case e of
        Empty_enumerator \<Rightarrow> []
      | Signature_enumerator this \<Rightarrow> signature_destroy this)"

text \<open>
  A caller that invokes \<open>enumerate\<close> \<open>n\<close> times in a row: the \<open>n\<close> results, the
  enumerator afterwards, and all effects in order.
\<close>

primrec enumerate_n ::
  "externals \<Rightarrow> nat \<Rightarrow> enumerator_t \<Rightarrow> auth_cfg_t option list \<times> enumerator_t \<times> effect list" where
  "enumerate_n ext 0 e = ([], e, [])"
| "enumerate_n ext (Suc n) e =
     (case enumerate ext e of
        (out, e', eff) \<Rightarrow>
          (case enumerate_n ext n e' of
             (outs, e'', effs) \<Rightarrow> (out # outs, e'', eff @ effs)))"

subsection \<open>The container\<close>

text \<open>
  \<open>create_empty\<close> only allocates the object and fills in its methods; \<open>parse\<close> sets
  both fields, so the record is the object after a successful \<open>parse\<close>.
\<close>

record private_openssl_pkcs7_t =
  pkcs7_type :: container_type_t
  pkcs7_cms :: CMS_ContentInfo

definition create_signature_enumerator :: "private_openssl_pkcs7_t \<Rightarrow> enumerator_t" where
  "create_signature_enumerator this =
     (if pkcs7_type this = CONTAINER_PKCS7_SIGNED_DATA then
        Signature_enumerator
          \<lparr>enum_signers = CMS_get0_SignerInfos (pkcs7_cms this), enum_i = 0,
           enum_auth = None, enum_cms = pkcs7_cms this\<rparr>
      else enumerator_create_empty)"

definition get_type :: "private_openssl_pkcs7_t \<Rightarrow> container_type_t" where
  "get_type this = pkcs7_type this"

definition get_attribute :: "private_openssl_pkcs7_t \<Rightarrow> int \<Rightarrow> enumerator_t \<Rightarrow> chunk_t option" where
  "get_attribute this oid enumerator = None"

definition create_cert_enumerator :: "private_openssl_pkcs7_t \<Rightarrow> enumerator_t" where
  "create_cert_enumerator this = enumerator_create_empty"

text \<open>
  \<open>Some data\<close> is \<open>return TRUE\<close> with \<open>*data\<close> set, \<open>None\<close> is \<open>return FALSE\<close>;
  the memory is returned as the call leaves it.
\<close>

definition get_data ::
  "externals \<Rightarrow> memory \<Rightarrow> private_openssl_pkcs7_t \<Rightarrow> located_chunk option \<times> memory" where
  "get_data ext m this =
     (case pkcs7_type this of
        CONTAINER_PKCS7_DATA \<Rightarrow>
          (case CMS_get0_content (pkcs7_cms this) of
             Some os \<Rightarrow>
               (case chunk_clone m \<lparr>chunk_ptr = openssl_asn1_str2chunk_ptr ext os,
                                      chunk_bytes = openssl_asn1_str2chunk ext os\<rparr> of
                  (data, m') \<Rightarrow> (Some data, m'))
           | None \<Rightarrow> (None, m))
      | CONTAINER_PKCS7_SIGNED_DATA \<Rightarrow>
          (case CMS_get0_content (pkcs7_cms this) of
             Some os \<Rightarrow>
               (case chunk_clone m \<lparr>chunk_ptr = openssl_asn1_str2chunk_ptr ext os,
                                      chunk_bytes = openssl_asn1_str2chunk ext os\<rparr> of
                  (data, m') \<Rightarrow> (Some data, m'))
           | None \<Rightarrow> (None, m))
      | CONTAINER_PKCS7_ENVELOPED_DATA \<Rightarrow> (None, m)
      | CONTAINER_OTHER \<Rightarrow> (None, m))"

text \<open>
  \<open>destroy\<close>: the memory after \<open>CMS_ContentInfo_free(this->cms)\<close>. The object itself
  is gone afterwards.
\<close>

definition destroy :: "externals \<Rightarrow> memory \<Rightarrow> private_openssl_pkcs7_t \<Rightarrow> memory" where
  "destroy ext m this =
     m\<lparr>mem_live :=
         (\<lambda>a. if a \<in> set (CMS_ContentInfo_free ext (pkcs7_cms this)) then None
              else mem_live m a)\<rparr>"

definition get_encoding :: "private_openssl_pkcs7_t \<Rightarrow> chunk_t option" where
  "get_encoding this = None"

text \<open>
  The methods of the container as calls on the object: each returns the object as it is
  after the call (\<open>None\<close> once \<open>destroy\<close> has freed it) and what it returned. The two
  methods that touch the memory are called with it.
\<close>

datatype container_method =
    Call_get_type
  | Call_create_signature_enumerator
  | Call_get_data memory
  | Call_get_encoding
  | Call_get_attribute int enumerator_t
  | Call_create_cert_enumerator
  | Call_destroy memory

datatype call_result =
    Ret_type container_type_t
  | Ret_enumerator enumerator_t
  | Ret_chunk "chunk_t option"
  | Ret_data "located_chunk option \<times> memory"
  | Ret_memory memory

fun container_call ::
  "externals \<Rightarrow> private_openssl_pkcs7_t \<Rightarrow> container_method \<Rightarrow>
   private_openssl_pkcs7_t option \<times> call_result" where
  "container_call ext this Call_get_type = (Some this, Ret_type (get_type this))"
| "container_call ext this Call_create_signature_enumerator =
     (Some this, Ret_enumerator (create_signature_enumerator this))"
| "container_call ext this (Call_get_data m) = (Some this, Ret_data (get_data ext m this))"
| "container_call ext this Call_get_encoding = (Some this, Ret_chunk (get_encoding this))"
| "container_call ext this (Call_get_attribute oid e) =
     (Some this, Ret_chunk (get_attribute this oid e))"
| "container_call ext this Call_create_cert_enumerator =
     (Some this, Ret_enumerator (create_cert_enumerator this))"
| "container_call ext this (Call_destroy m) = (None, Ret_memory (destroy ext m this))"

text \<open>A sequence of calls; none is made on an object that was destroyed.\<close>

fun container_calls ::
  "externals \<Rightarrow> private_openssl_pkcs7_t \<Rightarrow> container_method list \<Rightarrow> private_openssl_pkcs7_t option" where
  "container_calls ext this [] = Some this"
| "container_calls ext this (c # cs) =
     (case fst (container_call ext this c) of
        None \<Rightarrow> None
      | Some this' \<Rightarrow> container_calls ext this' cs)"

subsection \<open>Loading\<close>

text \<open>
  \<open>parse\<close>: \<open>None\<close> is \<open>return FALSE\<close>, at either of the two places, and \<open>Some\<close>
  is \<open>return TRUE\<close> with the object as \<open>parse\<close> has set it.
\<close>

definition parse :: "externals \<Rightarrow> chunk_t \<Rightarrow> private_openssl_pkcs7_t option" where
  "parse ext blob =
     (case d2i_CMS_bio ext blob of
        None \<Rightarrow> None
      | Some c \<Rightarrow>
          (case openssl_asn1_known_oid ext (CMS_get0_type c) of
             OID_PKCS7_DATA \<Rightarrow> Some \<lparr>pkcs7_type = CONTAINER_PKCS7_DATA, pkcs7_cms = c\<rparr>
           | OID_PKCS7_SIGNED_DATA \<Rightarrow> Some \<lparr>pkcs7_type = CONTAINER_PKCS7_SIGNED_DATA, pkcs7_cms = c\<rparr>
           | OID_PKCS7_ENVELOPED_DATA \<Rightarrow>
               Some \<lparr>pkcs7_type = CONTAINER_PKCS7_ENVELOPED_DATA, pkcs7_cms = c\<rparr>
           | _ \<Rightarrow> None))"

text \<open>
  The builder parts of the variable argument list. \<open>BUILD_OTHER\<close> is any part the
  \<open>default\<close> branch rejects.
\<close>

datatype builder_part_t = BUILD_BLOB_ASN1_DER chunk_t | BUILD_END | BUILD_OTHER

text \<open>
  The \<open>while (TRUE)\<close> loop over the arguments: the blob on \<open>BUILD_END\<close>, \<open>None\<close>
  for \<open>return NULL\<close>. A list that ends without \<open>BUILD_END\<close> is not a call the
  builder makes (reading past the arguments is undefined in C); it is mapped to \<open>None\<close>.
\<close>

fun load_args :: "chunk_t \<Rightarrow> builder_part_t list \<Rightarrow> chunk_t option" where
  "load_args blob [] = None"
| "load_args blob (BUILD_BLOB_ASN1_DER b # args) = load_args b args"
| "load_args blob (BUILD_END # args) = Some blob"
| "load_args blob (BUILD_OTHER # args) = None"

definition openssl_pkcs7_load ::
  "externals \<Rightarrow> container_type_t \<Rightarrow> builder_part_t list \<Rightarrow> private_openssl_pkcs7_t option" where
  "openssl_pkcs7_load ext type args =
     (case load_args [] args of
        None \<Rightarrow> None
      | Some blob \<Rightarrow>
          if length blob \<noteq> 0 then
            (case parse ext blob of
               Some this \<Rightarrow> Some this
             | None \<Rightarrow> None)
          else None)"

subsection \<open>Reading the effects\<close>

text \<open>
  The authorization contexts in flight after a sequence of effects, starting from the
  ones in \<open>held\<close>: a clone adds one, a destroy removes the one it names. \<open>None\<close>
  reports a destroy of a context that is not in flight.
\<close>

fun in_flight :: "auth_cfg_t list \<Rightarrow> effect list \<Rightarrow> auth_cfg_t list option" where
  "in_flight held [] = Some held"
| "in_flight held (DBG1 fmt args # effs) = in_flight held effs"
| "in_flight held (Auth_clone a # effs) = in_flight (a # held) effs"
| "in_flight held (Auth_destroy a # effs) =
     (if a \<in> set held then in_flight (remove1 a held) effs else None)"

text \<open>The largest number of contexts in flight at any moment of the sequence.\<close>

fun most_in_flight :: "auth_cfg_t list \<Rightarrow> effect list \<Rightarrow> nat" where
  "most_in_flight held [] = length held"
| "most_in_flight held (DBG1 fmt args # effs) = most_in_flight held effs"
| "most_in_flight held (Auth_clone a # effs) =
     max (length held) (most_in_flight (a # held) effs)"
| "most_in_flight held (Auth_destroy a # effs) =
     max (length held) (most_in_flight (remove1 a held) effs)"

text \<open>What an enumerator holds in \<open>this->auth\<close>.\<close>

definition held_by :: "enumerator_t \<Rightarrow> auth_cfg_t list" where
  "held_by e =
     (case e of
        Empty_enumerator \<Rightarrow> []
      | Signature_enumerator this \<Rightarrow>
          (case enum_auth this of None \<Rightarrow> [] | Some a \<Rightarrow> [a]))"

subsection \<open>What a round yields\<close>

text \<open>
  Read off the code: what \<open>verify_signature\<close> and \<open>verify_digest\<close> make of one signer
  behind the algorithm guard of the loop. Used to follow the loop through the signers.
\<close>

definition round_outcome ::
  "externals \<Rightarrow> CMS_ContentInfo \<Rightarrow> CMS_SignerInfo \<Rightarrow> auth_cfg_t option" where
  "round_outcome ext c si =
     (if openssl_asn1_known_oid ext (signatureAlgorithm si) = OID_RSA_ENCRYPTION \<and>
         fst (verify_digest ext c si (openssl_asn1_known_oid ext (digestAlgorithm si)))
      then fst (verify_signature ext si (openssl_asn1_known_oid ext (digestAlgorithm si)))
      else None)"

subsection \<open>Valid signers, as the specification has them\<close>

text \<open>
  The specification of one signer, written from the words of the spec over the
  collaborators alone; none of the functions of the file occurs in it.

  The attribute re-encoder: the encodings of the signed attributes in their order,
  wrapped as a set.
\<close>

definition spec_reencode :: "externals \<Rightarrow> CMS_SignerInfo \<Rightarrow> chunk_t" where
  "spec_reencode ext si =
     asn1_wrap ext 0x31 (concat (map (openssl_i2chunk ext) (signedAttrs si)))"

text \<open>
  A candidate certificate counts when its issuer equals the claimed issuer and its public
  key verifies the re-encoded attributes against the signature of the signer.
\<close>

definition spec_candidate_counts ::
  "externals \<Rightarrow> identification_t \<Rightarrow> CMS_SignerInfo \<Rightarrow> known_oid \<Rightarrow> certificate_t \<Rightarrow> bool" where
  "spec_candidate_counts ext issuer si h cert =
     (id_equals ext issuer (get_issuer cert) \<and>
      (case get_public_key cert of
         None \<Rightarrow> False
       | Some key \<Rightarrow>
           key_verify key (signature_scheme_from_oid ext h) (spec_reencode ext si)
             (openssl_asn1_str2chunk ext (signature si))))"

text \<open>
  The signer resolver: a signer without an issuer and serial number resolves to nothing;
  otherwise the first candidate of the trust store that counts gives its authorization
  context.
\<close>

definition spec_resolve :: "externals \<Rightarrow> CMS_SignerInfo \<Rightarrow> known_oid \<Rightarrow> auth_cfg_t option" where
  "spec_resolve ext si h =
     (case CMS_SignerInfo_get0_signer_id ext si of
        Signer_id_issuer_serial name snr \<Rightarrow>
          (case openssl_x509_name2id ext name of
             None \<Rightarrow> None
           | Some issuer \<Rightarrow>
               map_option snd
                 (find (\<lambda>(cert, auth). spec_candidate_counts ext issuer si h cert)
                    (create_trusted_enumerator ext KEY_RSA
                       (identification_create_from_encoding ext ID_KEY_ID
                          (openssl_asn1_str2chunk ext snr)) False)))
      | Signer_id_failed \<Rightarrow> None
      | Signer_id_keyid \<Rightarrow> None)"

text \<open>
  The digest binder: the signer declares a message digest, the content octets are there,
  the digest algorithm has a hasher, and the hash of the content is the declared digest.
\<close>

definition spec_digest_binds ::
  "externals \<Rightarrow> CMS_ContentInfo \<Rightarrow> CMS_SignerInfo \<Rightarrow> known_oid \<Rightarrow> bool" where
  "spec_digest_binds ext c si h =
     (case CMS_signed_get0_data_by_OBJ ext si NID_pkcs9_messageDigest (- 3) V_ASN1_OCTET_STRING of
        None \<Rightarrow> False
      | Some declared \<Rightarrow>
          (case CMS_get0_content c of
             Some (Some content) \<Rightarrow>
               (case create_hasher ext (hasher_algorithm_from_oid ext h) of
                  None \<Rightarrow> False
                | Some hasher \<Rightarrow>
                    allocate_hash hasher (openssl_asn1_str2chunk ext (Some content)) =
                      Some (openssl_asn1_str2chunk ext (Some declared)))
           | _ \<Rightarrow> False))"

text \<open>
  A signer is accepted when its signature algorithm is RSA encryption, it resolves, and
  its digest binds the content; the result for it is the resolved authorization context.
\<close>

definition spec_accepts ::
  "externals \<Rightarrow> CMS_ContentInfo \<Rightarrow> CMS_SignerInfo \<Rightarrow> auth_cfg_t option" where
  "spec_accepts ext c si =
     (if openssl_asn1_known_oid ext (signatureAlgorithm si) = OID_RSA_ENCRYPTION \<and>
         spec_digest_binds ext c si (openssl_asn1_known_oid ext (digestAlgorithm si))
      then spec_resolve ext si (openssl_asn1_known_oid ext (digestAlgorithm si))
      else None)"

subsection \<open>A small instance\<close>

text \<open>
  Concrete collaborators on which the statements below are evaluated: a decoder that
  reads the content type from the second byte, a hash that is the length of its input,
  keys that accept the data prefixed with their own byte, and a trust store of four
  certificates. The locals of \<open>verify_signature\<close> hold the issuer \<open>[1]\<close> and the serial
  number \<open>[5]\<close> when it is entered, as an earlier call may have left them. The content
  string lies at address \<open>1\<close>, and freeing a structure releases the addresses \<open>0\<close> to
  \<open>2\<close>.
\<close>

definition demo_known_oid :: "ASN1_OBJECT \<Rightarrow> known_oid" where
  "demo_known_oid obj =
     (if obj = [1] then OID_PKCS7_DATA
      else if obj = [2] then OID_PKCS7_SIGNED_DATA
      else if obj = [3] then OID_PKCS7_ENVELOPED_DATA
      else if obj = [4] then OID_RSA_ENCRYPTION
      else OID_OTHER (int (sum_list obj)))"

definition demo_number :: "known_oid \<Rightarrow> int" where
  "demo_number k = (case k of OID_OTHER n \<Rightarrow> n | _ \<Rightarrow> 0)"

definition demo_key :: "8 word \<Rightarrow> public_key_t" where
  "demo_key k = \<lparr>key_verify = (\<lambda>scheme data sig. sig = k # data)\<rparr>"

definition demo_store :: "(certificate_t \<times> auth_cfg_t) list" where
  "demo_store =
     [(\<lparr>get_issuer = Identification ID_OTHER [1], get_public_key = Some (demo_key 7)\<rparr>,
       Auth_cfg ''alice''),
      (\<lparr>get_issuer = Identification ID_OTHER [2], get_public_key = Some (demo_key 8)\<rparr>,
       Auth_cfg ''mallory''),
      (\<lparr>get_issuer = Identification ID_OTHER [1], get_public_key = Some (demo_key 8)\<rparr>,
       Auth_cfg ''bob''),
      (\<lparr>get_issuer = Identification ID_OTHER [1], get_public_key = Some (demo_key 8)\<rparr>,
       Auth_cfg ''carol'')]"

definition demo_decode :: "chunk_t \<Rightarrow> CMS_ContentInfo option" where
  "demo_decode blob =
     (case blob of
        t # tag # body \<Rightarrow>
          if t = 0x30 then
            Some \<lparr>CMS_get0_type = [unat tag],
                  CMS_get0_content = (if tag = 3 then None else Some (Some (ASN1_STRING body))),
                  CMS_get0_SignerInfos = (if tag = 2 then Some [] else None)\<rparr>
          else None
      | _ \<Rightarrow> None)"

definition demo_digest_attr :: "CMS_SignerInfo \<Rightarrow> ASN1_STRING option" where
  "demo_digest_attr si =
     (case filter (\<lambda>a. case a of X509_ATTRIBUTE obj vs \<Rightarrow> obj = [9, 4]) (signedAttrs si) of
        [X509_ATTRIBUTE obj [v]] \<Rightarrow> Some (ASN1_STRING v)
      | _ \<Rightarrow> None)"

text \<open>
  The identifier of a signer: no bytes for a call that fails, a first byte \<open>0\<close> for a
  subject key identifier, otherwise the issuer byte followed by the serial number.
\<close>

definition demo_signer_id :: "CMS_SignerInfo \<Rightarrow> signer_id_t" where
  "demo_signer_id si =
     (case sid si of
        CMS_SignerIdentifier c \<Rightarrow>
          (case c of
             [] \<Rightarrow> Signer_id_failed
           | x # xs \<Rightarrow>
               if x = 0 then Signer_id_keyid
               else Signer_id_issuer_serial (Some (X509_NAME [x])) (Some (ASN1_STRING xs))))"

definition demo_ext :: externals where
  "demo_ext =
     \<lparr>d2i_CMS_bio = demo_decode,
      openssl_asn1_known_oid = demo_known_oid,
      openssl_asn1_str2chunk = (\<lambda>p. case p of None \<Rightarrow> [] | Some (ASN1_STRING c) \<Rightarrow> c),
      openssl_x509_name2id =
        (\<lambda>p. case p of None \<Rightarrow> None | Some (X509_NAME c) \<Rightarrow> Some (Identification ID_OTHER c)),
      openssl_i2chunk = (\<lambda>a. case a of X509_ATTRIBUTE obj vs \<Rightarrow> concat vs),
      asn1_wrap = (\<lambda>t c. t # c),
      CMS_SignerInfo_get0_signer_id = demo_signer_id,
      uninitialised_name = (\<lambda>si. Some (X509_NAME [1])),
      uninitialised_snr = (\<lambda>si. Some (ASN1_STRING [5])),
      CMS_signed_get0_data_by_OBJ = (\<lambda>si nid lastpos t. demo_digest_attr si),
      identification_create_from_encoding = Identification,
      id_equals = (\<lambda>a b. a = b),
      create_trusted_enumerator = (\<lambda>kt serial online. if kt = KEY_RSA then demo_store else []),
      signature_scheme_from_oid = demo_number,
      hasher_algorithm_from_oid = demo_number,
      create_hasher =
        (\<lambda>alg. if alg = 10 then Some \<lparr>allocate_hash = (\<lambda>c. Some [of_nat (length c)])\<rparr>
               else None),
      openssl_asn1_str2chunk_ptr = (\<lambda>p. 1),
      CMS_ContentInfo_free = (\<lambda>c. [0, 1, 2])\<rparr>"

text \<open>
  A signer with issuer \<open>[1]\<close>, digest algorithm \<open>[10]\<close>, one signed attribute holding
  the message digest, and the signature that the key with byte \<open>k\<close> accepts.
\<close>

definition demo_signer :: "ASN1_OBJECT \<Rightarrow> 8 word \<Rightarrow> chunk_t \<Rightarrow> CMS_SignerInfo" where
  "demo_signer sigalg k digest =
     \<lparr>version = 1, sid = CMS_SignerIdentifier [1, 5], digestAlgorithm = [10],
      signedAttrs = [X509_ATTRIBUTE [9, 4] [digest]], signatureAlgorithm = sigalg,
      signature = Some (ASN1_STRING (k # 0x31 # digest))\<rparr>"

text \<open>A signed-data container with two content bytes, whose hash is \<open>[2]\<close>.\<close>

definition demo_cms :: "CMS_SignerInfo list option \<Rightarrow> CMS_ContentInfo" where
  "demo_cms sk =
     \<lparr>CMS_get0_type = [2], CMS_get0_content = Some (Some (ASN1_STRING [0xAA, 0xBB])),
      CMS_get0_SignerInfos = sk\<rparr>"

definition demo_container :: "CMS_SignerInfo list option \<Rightarrow> private_openssl_pkcs7_t" where
  "demo_container sk = \<lparr>pkcs7_type = CONTAINER_PKCS7_SIGNED_DATA, pkcs7_cms = demo_cms sk\<rparr>"

text \<open>The same container without a content string behind its content location.\<close>

definition demo_detached :: "CMS_SignerInfo list option \<Rightarrow> private_openssl_pkcs7_t" where
  "demo_detached sk =
     \<lparr>pkcs7_type = CONTAINER_PKCS7_SIGNED_DATA,
      pkcs7_cms = \<lparr>CMS_get0_type = [2], CMS_get0_content = Some None,
                    CMS_get0_SignerInfos = sk\<rparr>\<rparr>"

text \<open>
  A memory with three allocations, the content bytes at address \<open>1\<close>; addresses from
  \<open>3\<close> on have never been allocated.
\<close>

definition demo_memory :: memory where
  "demo_memory =
     \<lparr>mem_next = 3,
      mem_live = (\<lambda>a. if a = 0 then Some [0x30] else if a = 1 then Some [0xAA, 0xBB]
                      else if a = 2 then Some [] else None)\<rparr>"


section \<open>Properties\<close>

subsection \<open>Content extraction\<close>

text \<open>
  Claim C7. For a plain-data or signed-data container whose content string is present,
  \<open>get_data\<close> returns \<open>TRUE\<close> with a defensive copy of the payload: the bytes of the
  content string, in an allocation that did not exist before the call and is not the
  storage of the string, with every other allocation as it was; the copy is still there
  after \<open>destroy\<close> has released the storage of the container. For every enveloped-data
  container and every other type it returns \<open>FALSE\<close>, hands out no data and leaves the
  memory alone.
\<close>

theorem get_data_defensive_copy:
  "(\<forall>s. (pkcs7_type this = CONTAINER_PKCS7_DATA \<or>
         pkcs7_type this = CONTAINER_PKCS7_SIGNED_DATA) \<and>
        CMS_get0_content (pkcs7_cms this) = Some (Some s) \<and>
        (\<forall>a. mem_next m \<le> a \<longrightarrow> mem_live m a = None) \<and>
        openssl_asn1_str2chunk_ptr ext (Some s) < mem_next m \<and>
        (\<forall>a \<in> set (CMS_ContentInfo_free ext (pkcs7_cms this)). a < mem_next m) \<longrightarrow>
        (\<exists>data m'. get_data ext m this = (Some data, m') \<and>
           chunk_bytes data = openssl_asn1_str2chunk ext (Some s) \<and>
           mem_live m' (chunk_ptr data) = Some (openssl_asn1_str2chunk ext (Some s)) \<and>
           mem_live m (chunk_ptr data) = None \<and>
           chunk_ptr data \<noteq> openssl_asn1_str2chunk_ptr ext (Some s) \<and>
           (\<forall>a. a \<noteq> chunk_ptr data \<longrightarrow> mem_live m' a = mem_live m a) \<and>
           mem_live (destroy ext m' this) (chunk_ptr data) =
             Some (openssl_asn1_str2chunk ext (Some s)))) \<and>
   (pkcs7_type this = CONTAINER_PKCS7_ENVELOPED_DATA \<or> pkcs7_type this = CONTAINER_OTHER \<longrightarrow>
      get_data ext m this = (None, m))"
proof (intro conjI allI impI)
  fix s
  let ?payload = "openssl_asn1_str2chunk ext (Some s)"
  let ?data = "\<lparr>chunk_ptr = mem_next m, chunk_bytes = ?payload\<rparr>"
  let ?m' = "m\<lparr>mem_next := mem_next m + 1, mem_live := (mem_live m)(mem_next m := Some ?payload)\<rparr>"
  assume a: "(pkcs7_type this = CONTAINER_PKCS7_DATA \<or>
         pkcs7_type this = CONTAINER_PKCS7_SIGNED_DATA) \<and>
        CMS_get0_content (pkcs7_cms this) = Some (Some s) \<and>
        (\<forall>a. mem_next m \<le> a \<longrightarrow> mem_live m a = None) \<and>
        openssl_asn1_str2chunk_ptr ext (Some s) < mem_next m \<and>
        (\<forall>a \<in> set (CMS_ContentInfo_free ext (pkcs7_cms this)). a < mem_next m)"
  then have g: "get_data ext m this = (Some ?data, ?m')"
    by (auto simp: get_data_def chunk_clone_def)
  from a have "mem_next m \<notin> set (CMS_ContentInfo_free ext (pkcs7_cms this))"
    by auto
  then have d: "mem_live (destroy ext ?m' this) (mem_next m) = Some ?payload"
    by (simp add: destroy_def)
  from a have "mem_live m (mem_next m) = None"
    "mem_next m \<noteq> openssl_asn1_str2chunk_ptr ext (Some s)"
    by auto
  with g d show "\<exists>data m'. get_data ext m this = (Some data, m') \<and>
           chunk_bytes data = openssl_asn1_str2chunk ext (Some s) \<and>
           mem_live m' (chunk_ptr data) = Some (openssl_asn1_str2chunk ext (Some s)) \<and>
           mem_live m (chunk_ptr data) = None \<and>
           chunk_ptr data \<noteq> openssl_asn1_str2chunk_ptr ext (Some s) \<and>
           (\<forall>a. a \<noteq> chunk_ptr data \<longrightarrow> mem_live m' a = mem_live m a) \<and>
           mem_live (destroy ext m' this) (chunk_ptr data) =
             Some (openssl_asn1_str2chunk ext (Some s))"
    by simp
next
  assume "pkcs7_type this = CONTAINER_PKCS7_ENVELOPED_DATA \<or> pkcs7_type this = CONTAINER_OTHER"
  then show "get_data ext m this = (None, m)"
    by (auto simp: get_data_def)
qed

text \<open>
  Where the content location is there but holds no string, \<open>get_data\<close> returns
  \<open>TRUE\<close> as well, with a copy of the chunk that \<open>openssl_asn1_str2chunk\<close> gives for
  \<open>NULL\<close>.
\<close>

lemma get_data_no_string:
  assumes "pkcs7_type this = CONTAINER_PKCS7_DATA \<or> pkcs7_type this = CONTAINER_PKCS7_SIGNED_DATA"
    and "CMS_get0_content (pkcs7_cms this) = Some None"
  shows "\<exists>data m'. get_data ext m this = (Some data, m') \<and>
           chunk_bytes data = openssl_asn1_str2chunk ext None"
  using assms by (auto simp: get_data_def chunk_clone_def)

subsection \<open>Loading and the content type\<close>

lemma container_call_same:
  "fst (container_call ext this m) = Some this' \<Longrightarrow> this' = this"
  by (cases m) auto

lemma container_calls_same:
  "container_calls ext this ms = Some this' \<Longrightarrow> this' = this"
proof (induction ms arbitrary: this)
  case Nil
  then show ?case by simp
next
  case (Cons m ms)
  then show ?case
    by (auto split: option.splits dest: container_call_same)
qed

text \<open>
  Claim C5, amended. A blob that \<open>d2i_CMS_bio\<close> does not decode, and a blob that
  decodes to a content type other than data, signed-data and enveloped-data, both make
  \<open>parse\<close> return \<open>FALSE\<close> and \<open>openssl_pkcs7_load\<close> return \<open>NULL\<close>: no container
  is produced. The two failures are reported in the same way; nothing tells the caller
  which one it was.
\<close>

theorem load_fails:
  assumes "load_args [] args = Some blob"
    and "d2i_CMS_bio ext blob = None \<or>
         (\<exists>c. d2i_CMS_bio ext blob = Some c \<and>
              openssl_asn1_known_oid ext (CMS_get0_type c) \<noteq> OID_PKCS7_DATA \<and>
              openssl_asn1_known_oid ext (CMS_get0_type c) \<noteq> OID_PKCS7_SIGNED_DATA \<and>
              openssl_asn1_known_oid ext (CMS_get0_type c) \<noteq> OID_PKCS7_ENVELOPED_DATA)"
  shows "parse ext blob = None \<and> openssl_pkcs7_load ext t args = None"
  using assms by (auto simp: parse_def openssl_pkcs7_load_def split: known_oid.splits)

text \<open>
  Claim C6. Loading a non-empty blob that decodes to one of the three supported content
  types \<open>T\<close> gives a container whose \<open>get_type\<close> is \<open>T\<close>, and \<open>get_type\<close> is
  still \<open>T\<close> after any sequence of method calls that leaves the container alive.
\<close>

theorem load_type_fixed:
  assumes "load_args [] args = Some blob" and "blob \<noteq> []"
    and "d2i_CMS_bio ext blob = Some c"
    and "(openssl_asn1_known_oid ext (CMS_get0_type c), T) \<in>
           {(OID_PKCS7_DATA, CONTAINER_PKCS7_DATA),
            (OID_PKCS7_SIGNED_DATA, CONTAINER_PKCS7_SIGNED_DATA),
            (OID_PKCS7_ENVELOPED_DATA, CONTAINER_PKCS7_ENVELOPED_DATA)}"
  shows "\<exists>this. openssl_pkcs7_load ext t args = Some this \<and> get_type this = T \<and>
           (\<forall>ms this'. container_calls ext this ms = Some this' \<longrightarrow> get_type this' = T)"
  using assms
  by (auto simp: parse_def openssl_pkcs7_load_def get_type_def dest!: container_calls_same)

subsection \<open>The digest check\<close>

text \<open>
  \<open>verify_digest\<close> returns \<open>TRUE\<close> exactly when the signer has a messageDigest
  attribute, \<open>CMS_get0_content\<close> gives a content location, a hasher exists for the
  digest algorithm, and the hash it computes over the chunk of what the location holds
  equals the declared digest. With attribute and location present, a missing hasher is
  logged as \<open>hash algorithm %N not supported\<close> and a mismatch as
  \<open>invalid messageDigest\<close>, two different lines.
\<close>

lemma verify_digest_iff:
  "(fst (verify_digest ext c si h) \<longleftrightarrow>
      (\<exists>os osp hasher hash.
          CMS_signed_get0_data_by_OBJ ext si NID_pkcs9_messageDigest (- 3) V_ASN1_OCTET_STRING = Some os \<and>
          CMS_get0_content c = Some osp \<and>
          create_hasher ext (hasher_algorithm_from_oid ext h) = Some hasher \<and>
          allocate_hash hasher (openssl_asn1_str2chunk ext osp) = Some hash \<and>
          openssl_asn1_str2chunk ext (Some os) = hash)) \<and>
   (\<forall>os osp.
      CMS_signed_get0_data_by_OBJ ext si NID_pkcs9_messageDigest (- 3) V_ASN1_OCTET_STRING = Some os \<and>
      CMS_get0_content c = Some osp \<longrightarrow>
      (create_hasher ext (hasher_algorithm_from_oid ext h) = None \<longrightarrow>
         verify_digest ext c si h =
           (False, [DBG1 ''hash algorithm %N not supported'' [hasher_algorithm_from_oid ext h]])) \<and>
      (\<forall>hasher hash.
         create_hasher ext (hasher_algorithm_from_oid ext h) = Some hasher \<and>
         allocate_hash hasher (openssl_asn1_str2chunk ext osp) = Some hash \<and>
         openssl_asn1_str2chunk ext (Some os) \<noteq> hash \<longrightarrow>
         verify_digest ext c si h = (False, [DBG1 ''invalid messageDigest'' []]))) \<and>
   (\<forall>alg. DBG1 ''hash algorithm %N not supported'' [alg] \<noteq> DBG1 ''invalid messageDigest'' [])"
  by (auto simp: verify_digest_def chunk_equals_def Let_def split: option.splits)

text \<open>Where the content string is not missing, this is the digest binder of the spec.\<close>

lemma verify_digest_spec:
  assumes "CMS_get0_content c \<noteq> Some None"
  shows "fst (verify_digest ext c si h) = spec_digest_binds ext c si h"
  using assms
  by (auto simp: verify_digest_def spec_digest_binds_def chunk_equals_def Let_def
      split: option.splits)

subsection \<open>The signer resolver\<close>

lemma reconstruct_attrs_concat:
  "reconstruct_attrs ext as acc = acc @ concat (map (openssl_i2chunk ext) as)"
  by (induction as arbitrary: acc) (simp_all add: chunk_cat_def)

lemma trusted_loop_none:
  assumes "\<forall>(cert, auth) \<in> set cands.
             \<not> (id_equals ext issuer (get_issuer cert) \<and>
                (\<exists>key. get_public_key cert = Some key \<and> key_verify key scheme attrs sig))"
  shows "trusted_loop ext issuer scheme attrs sig cands = (None, [])"
  using assms by (induction cands) (auto split: option.splits)

lemma trusted_loop_first:
  assumes "\<forall>(cert, auth) \<in> set pre.
             \<not> (id_equals ext issuer (get_issuer cert) \<and>
                (\<exists>key. get_public_key cert = Some key \<and> key_verify key scheme attrs sig))"
    and "id_equals ext issuer (get_issuer cert)"
    and "get_public_key cert = Some key" and "key_verify key scheme attrs sig"
  shows "trusted_loop ext issuer scheme attrs sig (pre @ (cert, auth) # rest) = (Some auth, rest)"
  using assms by (induction pre) (auto split: option.splits)

lemma trusted_loop_find:
  "fst (trusted_loop ext issuer scheme attrs sig cands) =
     map_option snd
       (find (\<lambda>(cert, auth). id_equals ext issuer (get_issuer cert) \<and>
                (case get_public_key cert of
                   None \<Rightarrow> False
                 | Some key \<Rightarrow> key_verify key scheme attrs sig)) cands)"
proof (induction cands)
  case Nil
  show ?case by simp
next
  case (Cons x cands)
  obtain cert auth where x: "x = (cert, auth)"
    by (cases x)
  show ?case
    using Cons by (cases "get_public_key cert") (simp_all add: x)
qed

lemma reconstruct_attrs_spec:
  "asn1_wrap ext 0x31 (reconstruct_attrs ext (signedAttrs si) []) = spec_reencode ext si"
  by (simp add: spec_reencode_def reconstruct_attrs_concat)

lemma trusted_loop_spec:
  "fst (trusted_loop ext issuer (signature_scheme_from_oid ext h) (spec_reencode ext si)
          (openssl_asn1_str2chunk ext (signature si)) cands) =
     map_option snd (find (\<lambda>(cert, auth). spec_candidate_counts ext issuer si h cert) cands)"
  by (simp add: trusted_loop_find spec_candidate_counts_def)

text \<open>
  For a signer whose identifier is not a subject key identifier, \<open>verify_signature\<close>
  is the signer resolver of the spec.
\<close>

lemma verify_signature_spec:
  assumes "CMS_SignerInfo_get0_signer_id ext si \<noteq> Signer_id_keyid"
  shows "fst (verify_signature ext si h) = spec_resolve ext si h"
proof (cases "CMS_SignerInfo_get0_signer_id ext si")
  case Signer_id_failed
  then show ?thesis
    by (simp add: verify_signature_def signer_id_locals_def spec_resolve_def)
next
  case (Signer_id_issuer_serial name snr)
  show ?thesis
  proof (cases "openssl_x509_name2id ext name")
    case None
    with Signer_id_issuer_serial show ?thesis
      by (simp add: verify_signature_def signer_id_locals_def spec_resolve_def)
  next
    case (Some issuer)
    with Signer_id_issuer_serial show ?thesis
      by (simp add: verify_signature_def signer_id_locals_def spec_resolve_def Let_def
          reconstruct_attrs_spec trusted_loop_spec split: option.splits)
  qed
next
  case Signer_id_keyid
  with assms show ?thesis by simp
qed

text \<open>
  For a signer that is identified by its subject key identifier, \<open>verify_signature\<close>
  goes on with what its locals held: the issuer is looked up from the uninitialised
  \<open>name\<close>, the candidates from the uninitialised \<open>snr\<close>.
\<close>

lemma verify_signature_keyid:
  assumes "CMS_SignerInfo_get0_signer_id ext si = Signer_id_keyid"
  shows "fst (verify_signature ext si h) =
           (case openssl_x509_name2id ext (uninitialised_name ext si) of
              None \<Rightarrow> None
            | Some issuer \<Rightarrow>
                map_option snd
                  (find (\<lambda>(cert, auth). spec_candidate_counts ext issuer si h cert)
                     (create_trusted_enumerator ext KEY_RSA
                        (identification_create_from_encoding ext ID_KEY_ID
                           (openssl_asn1_str2chunk ext (uninitialised_snr ext si))) False)))"
  using assms
  by (simp add: verify_signature_def signer_id_locals_def Let_def reconstruct_attrs_spec
      trusted_loop_spec split: option.splits)

subsection \<open>The enumeration as a filter over the signers\<close>

lemma signature_round_result:
  assumes "signature_round ext sk this = (this', yield, eff)"
  shows "enum_i this' = enum_i this + 1 \<and> enum_signers this' = enum_signers this \<and>
         enum_cms this' = enum_cms this \<and>
         (if yield
          then \<exists>a. enum_auth this' = Some a \<and>
                 round_outcome ext (enum_cms this) (sk ! enum_i this) = Some a
          else round_outcome ext (enum_cms this) (sk ! enum_i this) = None)"
  using assms
  by (auto simp: signature_round_def round_outcome_def Let_def split: prod.splits if_splits)

lemma signature_loop_result:
  assumes "enum_i this \<le> length sk" and "signature_loop ext sk this = (out, this', eff)"
  shows "enum_cms this' = enum_cms this \<and> enum_signers this' = enum_signers this \<and>
         enum_i this' \<le> length sk \<and>
         (case List.map_filter (round_outcome ext (enum_cms this)) (drop (enum_i this) sk) of
            [] \<Rightarrow> out = None \<and> enum_i this' = length sk
          | a # as \<Rightarrow> out = Some a \<and>
              List.map_filter (round_outcome ext (enum_cms this)) (drop (enum_i this') sk) = as)"
  using assms
proof (induction ext sk this arbitrary: out this' eff rule: signature_loop.induct)
  case (1 ext sk this)
  show ?case
  proof (cases "enum_i this < length sk")
    case False
    with "1.prems" show ?thesis
      by (auto simp: signature_loop.simps)
  next
    case True
    obtain t y e where r: "signature_round ext sk this = (t, y, e)"
      by (cases "signature_round ext sk this") auto
    note rr = signature_round_result [OF r]
    have d: "drop (enum_i this) sk = sk ! enum_i this # drop (enum_i t) sk"
      using True rr by (simp add: Cons_nth_drop_Suc)
    show ?thesis
    proof (cases y)
      case True
      with \<open>enum_i this < length sk\<close> r "1.prems" have "out = enum_auth t" "this' = t"
        by (auto simp: signature_loop.simps)
      moreover from True rr obtain a where
        "round_outcome ext (enum_cms this) (sk ! enum_i this) = Some a" "enum_auth t = Some a"
        by auto
      ultimately show ?thesis
        using rr \<open>enum_i this < length sk\<close> by (simp add: d)
    next
      case False
      obtain o2 t2 e2 where l: "signature_loop ext sk t = (o2, t2, e2)"
        by (cases "signature_loop ext sk t") auto
      from False \<open>enum_i this < length sk\<close> r l "1.prems" have eq: "out = o2" "this' = t2"
        by (auto simp: signature_loop.simps)
      have "enum_i t \<le> length sk" using rr \<open>enum_i this < length sk\<close> by simp
      from "1.IH" [OF \<open>enum_i this < length sk\<close> r [symmetric] refl False this l]
      have ih: "enum_cms t2 = enum_cms t \<and> enum_signers t2 = enum_signers t \<and>
         enum_i t2 \<le> length sk \<and>
         (case List.map_filter (round_outcome ext (enum_cms t)) (drop (enum_i t) sk) of
            [] \<Rightarrow> o2 = None \<and> enum_i t2 = length sk
          | a # as \<Rightarrow> o2 = Some a \<and>
              List.map_filter (round_outcome ext (enum_cms t)) (drop (enum_i t2) sk) = as)" .
      moreover from False rr have
        "round_outcome ext (enum_cms this) (sk ! enum_i this) = None"
        by simp
      ultimately show ?thesis
        using rr eq by (auto simp: d split: list.splits)
    qed
  qed
qed

lemma enumerate_n_result:
  assumes "enum_signers this = Some sk" and "enum_i this \<le> length sk"
  shows "fst (enumerate_n ext n (Signature_enumerator this)) =
           map Some (take n (List.map_filter (round_outcome ext (enum_cms this))
                               (drop (enum_i this) sk))) @
           replicate (n - length (List.map_filter (round_outcome ext (enum_cms this))
                                    (drop (enum_i this) sk))) None"
  using assms
proof (induction n arbitrary: this)
  case 0
  then show ?case by simp
next
  case (Suc n)
  obtain out t e where l: "signature_loop ext sk this = (out, t, e)"
    by (cases "signature_loop ext sk this") auto
  note lr = signature_loop_result [OF Suc.prems(2) l]
  have t: "enum_signers t = Some sk" "enum_i t \<le> length sk" "enum_cms t = enum_cms this"
    using lr Suc.prems by simp_all
  note ih = Suc.IH [OF t(1) t(2)]
  have step: "fst (enumerate_n ext (Suc n) (Signature_enumerator this)) =
                out # fst (enumerate_n ext n (Signature_enumerator t))"
    using l Suc.prems(1)
    by (simp add: enumerate_def signature_enumerate_def split: prod.splits)
  show ?case
  proof (cases "List.map_filter (round_outcome ext (enum_cms this)) (drop (enum_i this) sk)")
    case Nil
    with lr have "out = None" "enum_i t = length sk" by simp_all
    with Nil step ih t show ?thesis by simp
  next
    case (Cons a as)
    with lr have "out = Some a"
      "List.map_filter (round_outcome ext (enum_cms this)) (drop (enum_i t) sk) = as"
      by simp_all
    with Cons step ih t show ?thesis by simp
  qed
qed

text \<open>
  Under the two conditions that keep the missing cases of the code away, a round
  yields what the specification accepts.
\<close>

lemma round_outcome_spec:
  assumes "CMS_get0_content c \<noteq> Some None"
    and "openssl_asn1_known_oid ext (signatureAlgorithm si) = OID_RSA_ENCRYPTION \<longrightarrow>
         CMS_SignerInfo_get0_signer_id ext si \<noteq> Signer_id_keyid"
  shows "round_outcome ext c si = spec_accepts ext c si"
  using assms
  by (simp add: round_outcome_def spec_accepts_def verify_digest_spec verify_signature_spec)

lemma map_filter_agree:
  "(\<And>x. x \<in> set xs \<Longrightarrow> f x = g x) \<Longrightarrow> List.map_filter f xs = List.map_filter g xs"
proof (induction xs)
  case Nil
  show ?case by simp
next
  case (Cons a xs)
  have "f a = g a" and "List.map_filter f xs = List.map_filter g xs"
    using Cons by simp_all
  then show ?case by (simp split: option.splits)
qed

subsection \<open>Authorization contexts in flight\<close>

lemma in_flight_append:
  "in_flight held e1 = Some h \<Longrightarrow> in_flight held (e1 @ e2) = in_flight h e2"
  by (induction held e1 rule: in_flight.induct) (auto split: if_splits)

lemma most_in_flight_ge: "length held \<le> most_in_flight held effs"
  by (induction held effs rule: most_in_flight.induct) auto

lemma most_in_flight_append:
  "in_flight held e1 = Some h \<Longrightarrow>
     most_in_flight held (e1 @ e2) = max (most_in_flight held e1) (most_in_flight h e2)"
  by (induction held e1 rule: in_flight.induct)
    (auto split: if_splits simp: max_absorb2 most_in_flight_ge)

lemma verify_signature_effects:
  "snd (verify_signature ext si h) =
     (case fst (verify_signature ext si h) of None \<Rightarrow> [] | Some a \<Rightarrow> [Auth_clone a])"
  by (simp add: verify_signature_def Let_def split: option.splits prod.splits)

lemma verify_digest_effects:
  "in_flight held (snd (verify_digest ext c si h)) = Some held \<and>
   most_in_flight held (snd (verify_digest ext c si h)) = length held"
  by (simp add: verify_digest_def Let_def split: option.splits)

lemma signature_round_effects:
  assumes "signature_round ext sk this = (this', yield, eff)"
  shows "\<exists>rest. eff = destroy_if (enum_auth this) @ rest \<and>
           in_flight [] rest = Some (held_by (Signature_enumerator this')) \<and>
           most_in_flight [] rest \<le> 1"
proof (cases "openssl_asn1_known_oid ext (signatureAlgorithm (sk ! enum_i this)) = OID_RSA_ENCRYPTION")
  case False
  with assms show ?thesis
    by (auto simp: signature_round_def Let_def held_by_def)
next
  case True
  let ?si = "sk ! enum_i this"
  let ?h = "openssl_asn1_known_oid ext (digestAlgorithm ?si)"
  obtain found es where vs: "verify_signature ext ?si ?h = (found, es)"
    by (cases "verify_signature ext ?si ?h") auto
  obtain ok ed where vd: "verify_digest ext (enum_cms this) ?si ?h = (ok, ed)"
    by (cases "verify_digest ext (enum_cms this) ?si ?h") auto
  have es: "es = (case found of None \<Rightarrow> [] | Some a \<Rightarrow> [Auth_clone a])"
    using verify_signature_effects [of ext ?si ?h] vs by simp
  have ed: "in_flight held ed = Some held" "most_in_flight held ed = length held" for held
    using verify_digest_effects [of held ext "enum_cms this" ?si ?h] vd by simp_all
  show ?thesis
  proof (cases found)
    case None
    with assms True vs es show ?thesis
      by (auto simp: signature_round_def Let_def held_by_def)
  next
    case (Some a)
    with assms True vs vd es have
      "eff = destroy_if (enum_auth this) @ (Auth_clone a # ed)" "enum_auth this' = Some a"
      by (auto simp: signature_round_def Let_def split: if_splits)
    then show ?thesis using ed by (auto simp: held_by_def)
  qed
qed

lemma destroy_if_flight:
  "in_flight (held_by (Signature_enumerator this)) (destroy_if (enum_auth this)) = Some [] \<and>
   most_in_flight (held_by (Signature_enumerator this)) (destroy_if (enum_auth this)) \<le> 1"
  by (simp add: held_by_def destroy_if_def split: option.splits)

lemma signature_round_flight:
  assumes "signature_round ext sk this = (this', yield, eff)"
  shows "in_flight (held_by (Signature_enumerator this)) eff =
           Some (held_by (Signature_enumerator this')) \<and>
         most_in_flight (held_by (Signature_enumerator this)) eff \<le> 1"
proof -
  from signature_round_effects [OF assms] obtain rest where
    r: "eff = destroy_if (enum_auth this) @ rest"
       "in_flight [] rest = Some (held_by (Signature_enumerator this'))"
       "most_in_flight [] rest \<le> 1"
    by blast
  note d = destroy_if_flight [of this]
  show ?thesis
    using r d in_flight_append [of _ "destroy_if (enum_auth this)" "[]" rest]
      most_in_flight_append [of _ "destroy_if (enum_auth this)" "[]" rest]
    by simp
qed

lemma held_by_le: "length (held_by e) \<le> 1"
  by (simp add: held_by_def split: enumerator_t.splits option.splits)

lemma signature_loop_flight:
  assumes "signature_loop ext sk this = (out, this', eff)"
  shows "in_flight (held_by (Signature_enumerator this)) eff =
           Some (held_by (Signature_enumerator this')) \<and>
         most_in_flight (held_by (Signature_enumerator this)) eff \<le> 1"
  using assms
proof (induction ext sk this arbitrary: out this' eff rule: signature_loop.induct)
  case (1 ext sk this)
  show ?case
  proof (cases "enum_i this < length sk")
    case False
    with "1.prems" show ?thesis
      using held_by_le [of "Signature_enumerator this"] by (auto simp: signature_loop.simps)
  next
    case True
    obtain t y e where r: "signature_round ext sk this = (t, y, e)"
      by (cases "signature_round ext sk this") auto
    note rf = signature_round_flight [OF r]
    show ?thesis
    proof (cases y)
      case True
      with \<open>enum_i this < length sk\<close> r "1.prems" have "this' = t" "eff = e"
        by (auto simp: signature_loop.simps)
      with rf show ?thesis by simp
    next
      case False
      obtain o2 t2 e2 where l: "signature_loop ext sk t = (o2, t2, e2)"
        by (cases "signature_loop ext sk t") auto
      from False \<open>enum_i this < length sk\<close> r l "1.prems" have eq: "this' = t2" "eff = e @ e2"
        by (auto simp: signature_loop.simps)
      note ih = "1.IH" [OF \<open>enum_i this < length sk\<close> r [symmetric] refl False l]
      show ?thesis
        using rf ih eq in_flight_append [of _ e _ e2] most_in_flight_append [of _ e _ e2]
        by simp
    qed
  qed
qed

lemma enumerate_flight:
  assumes "enumerate ext e = (out, e', eff)"
  shows "in_flight (held_by e) eff = Some (held_by e') \<and> most_in_flight (held_by e) eff \<le> 1"
proof (cases e)
  case Empty_enumerator
  with assms show ?thesis by (auto simp: enumerate_def held_by_def)
next
  case (Signature_enumerator this)
  show ?thesis
  proof (cases "enum_signers this")
    case None
    with assms Signature_enumerator show ?thesis
      using held_by_le [of e] by (auto simp: enumerate_def signature_enumerate_def)
  next
    case (Some sk)
    with assms Signature_enumerator obtain t where
      "signature_loop ext sk this = (out, t, eff)" "e' = Signature_enumerator t"
      by (auto simp: enumerate_def signature_enumerate_def split: prod.splits)
    with signature_loop_flight [of ext sk this out t eff] Signature_enumerator
    show ?thesis by simp
  qed
qed

lemma enumerate_n_flight:
  assumes "enumerate_n ext n e = (outs, e', effs)"
  shows "in_flight (held_by e) effs = Some (held_by e') \<and> most_in_flight (held_by e) effs \<le> 1"
  using assms
proof (induction n arbitrary: e outs e' effs)
  case 0
  then show ?case using held_by_le [of e] by auto
next
  case (Suc n)
  obtain out e1 eff where s: "enumerate ext e = (out, e1, eff)"
    by (cases "enumerate ext e") auto
  obtain outs2 e2 effs2 where r: "enumerate_n ext n e1 = (outs2, e2, effs2)"
    by (cases "enumerate_n ext n e1") auto
  from Suc.prems s r have eq: "e' = e2" "effs = eff @ effs2" by auto
  show ?case
    using enumerate_flight [OF s] Suc.IH [OF r] eq
      in_flight_append [of _ eff _ effs2] most_in_flight_append [of _ eff _ effs2]
    by simp
qed

lemma enumerator_destroy_flight:
  "in_flight (held_by e) (enumerator_destroy e) = Some []"
  by (simp add: held_by_def enumerator_destroy_def signature_destroy_def destroy_if_def
      split: enumerator_t.splits option.splits)

lemma held_by_create: "held_by (create_signature_enumerator this) = []"
  by (simp add: held_by_def create_signature_enumerator_def enumerator_create_empty_def)

text \<open>
  Claim C9. Over any number of \<open>enumerate\<close> calls on a fresh signature enumerator,
  never more than one authorization context is in flight, what is in flight afterwards
  is exactly what the enumerator holds, and \<open>destroy\<close> releases it. Every round of
  the loop first releases what the enumerator holds, so that nothing is in flight when
  the round may clone a new context.
\<close>

theorem at_most_one_in_flight:
  "(case enumerate_n ext n (create_signature_enumerator this) of
      (outs, e, effs) \<Rightarrow>
        most_in_flight [] effs \<le> 1 \<and> in_flight [] effs = Some (held_by e) \<and>
        length (held_by e) \<le> 1 \<and> in_flight [] (effs @ enumerator_destroy e) = Some []) \<and>
   (case signature_round ext sk s of
      (s', yield, eff) \<Rightarrow>
        \<exists>rest. eff = destroy_if (enum_auth s) @ rest \<and>
          in_flight (held_by (Signature_enumerator s)) (destroy_if (enum_auth s)) = Some [] \<and>
          in_flight [] rest = Some (held_by (Signature_enumerator s')) \<and>
          most_in_flight [] rest \<le> 1)"
proof -
  obtain outs e effs where
    r: "enumerate_n ext n (create_signature_enumerator this) = (outs, e, effs)"
    by (cases "enumerate_n ext n (create_signature_enumerator this)") auto
  note f = enumerate_n_flight [OF r, unfolded held_by_create]
  have "in_flight [] (effs @ enumerator_destroy e) = Some []"
    using f in_flight_append [of "[]" effs "held_by e" "enumerator_destroy e"]
      enumerator_destroy_flight [of e] by simp
  with f r have first: "case enumerate_n ext n (create_signature_enumerator this) of
      (outs, e, effs) \<Rightarrow>
        most_in_flight [] effs \<le> 1 \<and> in_flight [] effs = Some (held_by e) \<and>
        length (held_by e) \<le> 1 \<and> in_flight [] (effs @ enumerator_destroy e) = Some []"
    using held_by_le [of e] by simp
  obtain s' y eff where q: "signature_round ext sk s = (s', y, eff)"
    by (cases "signature_round ext sk s") auto
  from signature_round_effects [OF q] destroy_if_flight [of s] q
  have second: "case signature_round ext sk s of
      (s', yield, eff) \<Rightarrow>
        \<exists>rest. eff = destroy_if (enum_auth s) @ rest \<and>
          in_flight (held_by (Signature_enumerator s)) (destroy_if (enum_auth s)) = Some [] \<and>
          in_flight [] rest = Some (held_by (Signature_enumerator s')) \<and>
          most_in_flight [] rest \<le> 1"
    by auto
  from first second show ?thesis by blast
qed

subsection \<open>The claims about the enumerator\<close>

lemma enumerate_n_empty:
  "enumerate_n ext n Empty_enumerator = (replicate n None, Empty_enumerator, [])"
  by (induction n) (simp_all add: enumerate_def)

lemma enumerate_n_exhausted:
  assumes "enum_signers this = Some sk" and "length sk \<le> enum_i this"
  shows "enumerate_n ext n (Signature_enumerator this) =
           (replicate n None, Signature_enumerator this, [])"
  using assms
  by (induction n) (simp_all add: enumerate_def signature_enumerate_def signature_loop.simps)

lemma enumerate_n_no_signers:
  assumes "enum_signers this = None"
  shows "enumerate_n ext n (Signature_enumerator this) =
           (replicate n None, Signature_enumerator this, [])"
  using assms by (induction n) (simp_all add: enumerate_def signature_enumerate_def)

text \<open>
  Claim C1, amended. Take a signed-data container whose content string is not missing
  behind its content location and whose RSA signers are not identified by a subject key
  identifier. Then \<open>n\<close> successive \<open>enumerate\<close> calls yield the authorization contexts
  of the valid signers, in the order of the signers in the container, and after them
  only end-of-sequence; a signer is valid when its signature algorithm is RSA
  encryption, a trusted candidate with its issuer verifies its signature over the
  re-encoded attributes, and its declared message digest is the hash of the content.
  Every other signer is skipped wherever it stands.
\<close>

theorem enumerate_yields_accepted_signers:
  assumes "pkcs7_type this = CONTAINER_PKCS7_SIGNED_DATA"
    and "CMS_get0_SignerInfos (pkcs7_cms this) = Some sk"
    and "CMS_get0_content (pkcs7_cms this) \<noteq> Some None"
    and "\<forall>si \<in> set sk.
           openssl_asn1_known_oid ext (signatureAlgorithm si) = OID_RSA_ENCRYPTION \<longrightarrow>
           CMS_SignerInfo_get0_signer_id ext si \<noteq> Signer_id_keyid"
  shows "fst (enumerate_n ext n (create_signature_enumerator this)) =
           map Some (take n (List.map_filter (spec_accepts ext (pkcs7_cms this)) sk)) @
           replicate (n - length (List.map_filter (spec_accepts ext (pkcs7_cms this)) sk)) None"
proof -
  have "List.map_filter (round_outcome ext (pkcs7_cms this)) sk =
        List.map_filter (spec_accepts ext (pkcs7_cms this)) sk"
    using assms(3,4) by (intro map_filter_agree round_outcome_spec) auto
  then show ?thesis
    using assms(1,2)
      enumerate_n_result [of "\<lparr>enum_signers = Some sk, enum_i = 0, enum_auth = None,
                               enum_cms = pkcs7_cms this\<rparr>" sk ext n]
    by (simp add: create_signature_enumerator_def)
qed

text \<open>
  Claim C3, amended. A signer whose signature algorithm is RSA encryption, whose
  signature verifies, and whose declared message digest differs from the computed hash
  of the content ends its round without a result: the round clones the authorization
  context, logs \<open>invalid messageDigest\<close> and not the line of a failed signature
  verification, and the loop goes on with the next signer.
\<close>

theorem digest_mismatch_rejected:
  assumes "openssl_asn1_known_oid ext (signatureAlgorithm (sk ! enum_i this)) = OID_RSA_ENCRYPTION"
    and "h = openssl_asn1_known_oid ext (digestAlgorithm (sk ! enum_i this))"
    and "fst (verify_signature ext (sk ! enum_i this) h) = Some a"
    and "CMS_signed_get0_data_by_OBJ ext (sk ! enum_i this) NID_pkcs9_messageDigest (- 3)
           V_ASN1_OCTET_STRING = Some os"
    and "CMS_get0_content (enum_cms this) = Some osp"
    and "create_hasher ext (hasher_algorithm_from_oid ext h) = Some hasher"
    and "allocate_hash hasher (openssl_asn1_str2chunk ext osp) = Some hash"
    and "openssl_asn1_str2chunk ext (Some os) \<noteq> hash"
    and "enum_i this < length sk"
  shows "signature_round ext sk this =
           (this\<lparr>enum_i := enum_i this + 1, enum_auth := Some a\<rparr>, False,
            destroy_if (enum_auth this) @ [Auth_clone a, DBG1 ''invalid messageDigest'' []]) \<and>
         DBG1 ''unable to verify pkcs7 attributes signature'' [] \<notin>
           set (snd (snd (signature_round ext sk this))) \<and>
         signature_loop ext sk this =
           (case signature_loop ext sk (this\<lparr>enum_i := enum_i this + 1, enum_auth := Some a\<rparr>) of
              (out, this', eff) \<Rightarrow>
                (out, this',
                 (destroy_if (enum_auth this) @ [Auth_clone a, DBG1 ''invalid messageDigest'' []])
                 @ eff))"
proof -
  let ?si = "sk ! enum_i this"
  have vs: "verify_signature ext ?si h = (Some a, [Auth_clone a])"
    using assms(3) verify_signature_effects [of ext ?si h]
    by (cases "verify_signature ext ?si h") simp
  have vd: "verify_digest ext (enum_cms this) ?si h = (False, [DBG1 ''invalid messageDigest'' []])"
    using assms(4-8) by (simp add: verify_digest_def chunk_equals_def)
  have r: "signature_round ext sk this =
           (this\<lparr>enum_i := enum_i this + 1, enum_auth := Some a\<rparr>, False,
            destroy_if (enum_auth this) @ [Auth_clone a, DBG1 ''invalid messageDigest'' []])"
    using assms(1) vs vd assms(2) by (simp add: signature_round_def Let_def)
  have "DBG1 ''unable to verify pkcs7 attributes signature'' [] \<notin>
           set (snd (snd (signature_round ext sk this)))"
    by (simp add: r destroy_if_def split: option.splits)
  moreover have "signature_loop ext sk this =
           (case signature_loop ext sk (this\<lparr>enum_i := enum_i this + 1, enum_auth := Some a\<rparr>) of
              (out, this', eff) \<Rightarrow>
                (out, this',
                 (destroy_if (enum_auth this) @ [Auth_clone a, DBG1 ''invalid messageDigest'' []])
                 @ eff))"
    using assms(9) by (subst signature_loop.simps) (simp add: r)
  ultimately show ?thesis using r by blast
qed

text \<open>
  Claim C8. For a container that is not signed-data, every \<open>enumerate\<close> call on
  the enumerator of \<open>create_signature_enumerator\<close> returns \<open>FALSE\<close>, with no effect
  and the enumerator unchanged. A signature enumerator whose index has reached the end
  of the signers does the same, and so does any signature enumerator after a call that
  returned \<open>FALSE\<close>.
\<close>

theorem end_of_sequence_idempotent:
  "(pkcs7_type this \<noteq> CONTAINER_PKCS7_SIGNED_DATA \<longrightarrow>
      enumerate_n ext n (create_signature_enumerator this) =
        (replicate n None, create_signature_enumerator this, [])) \<and>
   (\<forall>sk. enum_signers s = Some sk \<and> length sk \<le> enum_i s \<longrightarrow>
      enumerate_n ext n (Signature_enumerator s) = (replicate n None, Signature_enumerator s, [])) \<and>
   (\<forall>e' eff. enumerate ext (Signature_enumerator s) = (None, e', eff) \<longrightarrow>
      enumerate_n ext n e' = (replicate n None, e', []))"
proof (intro conjI allI impI)
  assume "pkcs7_type this \<noteq> CONTAINER_PKCS7_SIGNED_DATA"
  then show "enumerate_n ext n (create_signature_enumerator this) =
        (replicate n None, create_signature_enumerator this, [])"
    by (simp add: create_signature_enumerator_def enumerator_create_empty_def enumerate_n_empty)
next
  fix sk assume "enum_signers s = Some sk \<and> length sk \<le> enum_i s"
  then show "enumerate_n ext n (Signature_enumerator s) =
               (replicate n None, Signature_enumerator s, [])"
    by (simp add: enumerate_n_exhausted)
next
  fix e' eff
  assume a: "enumerate ext (Signature_enumerator s) = (None, e', eff)"
  show "enumerate_n ext n e' = (replicate n None, e', [])"
  proof (cases "enum_signers s")
    case None
    with a have "e' = Signature_enumerator s"
      by (auto simp: enumerate_def signature_enumerate_def)
    with None show ?thesis by (simp add: enumerate_n_no_signers)
  next
    case (Some sk)
    with a obtain t where l: "signature_loop ext sk s = (None, t, eff)"
      and e: "e' = Signature_enumerator t"
      by (auto simp: enumerate_def signature_enumerate_def split: prod.splits)
    show ?thesis
    proof (cases "enum_i s \<le> length sk")
      case True
      from signature_loop_result [OF True l] Some
      have "enum_signers t = Some sk" "length sk \<le> enum_i t"
        by (auto split: list.splits)
      with e show ?thesis by (simp add: enumerate_n_exhausted)
    next
      case False
      with l have "t = s" by (simp add: signature_loop.simps)
      with e Some False show ?thesis by (simp add: enumerate_n_exhausted)
    qed
  qed
qed

text \<open>
  Claim C10. When \<open>CMS_get0_SignerInfos\<close> gives \<open>NULL\<close> for a signed-data
  container, the enumerator holds no signers and every \<open>enumerate\<close> call returns
  \<open>FALSE\<close> with no effect and the enumerator, its index included, unchanged.
\<close>

theorem absent_signers_empty_enumeration:
  assumes "pkcs7_type this = CONTAINER_PKCS7_SIGNED_DATA"
    and "CMS_get0_SignerInfos (pkcs7_cms this) = None"
  shows "enumerate_n ext n (create_signature_enumerator this) =
           (replicate n None, create_signature_enumerator this, []) \<and>
         create_signature_enumerator this =
           Signature_enumerator \<lparr>enum_signers = None, enum_i = 0, enum_auth = None,
                                  enum_cms = pkcs7_cms this\<rparr>"
  using assms by (simp add: create_signature_enumerator_def enumerate_n_no_signers)

subsection \<open>The statements on the small instance\<close>

lemmas demo_defs = demo_ext_def demo_known_oid_def demo_number_def demo_key_def demo_store_def
  demo_decode_def demo_digest_attr_def demo_signer_id_def demo_signer_def demo_cms_def
  demo_container_def demo_detached_def demo_memory_def

lemmas demo_eval = round_outcome_def verify_signature_def signer_id_locals_def verify_digest_def
  chunk_equals_def chunk_cat_def Let_def demo_defs

lemmas enum_eval = enumerate_def signature_enumerate_def signature_loop.simps signature_round_def
  create_signature_enumerator_def enumerator_create_empty_def destroy_if_def

lemmas spec_eval = spec_accepts_def spec_resolve_def spec_digest_binds_def
  spec_candidate_counts_def spec_reencode_def

theorem get_data_defensive_copy_witness:
  "get_data demo_ext demo_memory (demo_container None) =
     (Some \<lparr>chunk_ptr = 3, chunk_bytes = [0xAA, 0xBB]\<rparr>,
      demo_memory\<lparr>mem_next := 4, mem_live := (mem_live demo_memory)(3 := Some [0xAA, 0xBB])\<rparr>) \<and>
   mem_live (destroy demo_ext
      (demo_memory\<lparr>mem_next := 4, mem_live := (mem_live demo_memory)(3 := Some [0xAA, 0xBB])\<rparr>)
      (demo_container None)) 3 = Some [0xAA, 0xBB] \<and>
   mem_live (destroy demo_ext
      (demo_memory\<lparr>mem_next := 4, mem_live := (mem_live demo_memory)(3 := Some [0xAA, 0xBB])\<rparr>)
      (demo_container None)) 1 = None \<and>
   get_data demo_ext demo_memory
     \<lparr>pkcs7_type = CONTAINER_PKCS7_ENVELOPED_DATA, pkcs7_cms = demo_cms None\<rparr> =
     (None, demo_memory)"
proof -
  have h: "(pkcs7_type (demo_container None) = CONTAINER_PKCS7_DATA \<or>
         pkcs7_type (demo_container None) = CONTAINER_PKCS7_SIGNED_DATA) \<and>
        CMS_get0_content (pkcs7_cms (demo_container None)) = Some (Some (ASN1_STRING [0xAA, 0xBB])) \<and>
        (\<forall>a. mem_next demo_memory \<le> a \<longrightarrow> mem_live demo_memory a = None) \<and>
        openssl_asn1_str2chunk_ptr demo_ext (Some (ASN1_STRING [0xAA, 0xBB])) < mem_next demo_memory \<and>
        (\<forall>a \<in> set (CMS_ContentInfo_free demo_ext (pkcs7_cms (demo_container None))).
            a < mem_next demo_memory)"
    by (simp add: demo_defs)
  have e: "pkcs7_type \<lparr>pkcs7_type = CONTAINER_PKCS7_ENVELOPED_DATA, pkcs7_cms = demo_cms None\<rparr> =
             CONTAINER_PKCS7_ENVELOPED_DATA \<or>
           pkcs7_type \<lparr>pkcs7_type = CONTAINER_PKCS7_ENVELOPED_DATA, pkcs7_cms = demo_cms None\<rparr> =
             CONTAINER_OTHER"
    by simp
  note copy = get_data_defensive_copy [of "demo_container None" demo_memory demo_ext,
      THEN conjunct1, rule_format, OF h]
  note none = get_data_defensive_copy
      [of "\<lparr>pkcs7_type = CONTAINER_PKCS7_ENVELOPED_DATA, pkcs7_cms = demo_cms None\<rparr>"
          demo_memory demo_ext, THEN conjunct2, rule_format, OF e]
  have g: "get_data demo_ext demo_memory (demo_container None) =
     (Some \<lparr>chunk_ptr = 3, chunk_bytes = [0xAA, 0xBB]\<rparr>,
      demo_memory\<lparr>mem_next := 4, mem_live := (mem_live demo_memory)(3 := Some [0xAA, 0xBB])\<rparr>)"
    by (simp add: get_data_def chunk_clone_def demo_defs)
  have 1: "mem_live (destroy demo_ext
      (demo_memory\<lparr>mem_next := 4, mem_live := (mem_live demo_memory)(3 := Some [0xAA, 0xBB])\<rparr>)
      (demo_container None)) 1 = None"
    by (simp add: destroy_def demo_defs)
  show ?thesis
    using copy none g 1 by auto
qed

theorem load_fails_witness:
  "d2i_CMS_bio demo_ext [0x31, 2, 5] = None \<and>
   parse demo_ext [0x31, 2, 5] = None \<and>
   openssl_pkcs7_load demo_ext CONTAINER_OTHER [BUILD_BLOB_ASN1_DER [0x31, 2, 5], BUILD_END] = None \<and>
   d2i_CMS_bio demo_ext [0x30, 9, 5] =
     Some \<lparr>CMS_get0_type = [9], CMS_get0_content = Some (Some (ASN1_STRING [5])),
            CMS_get0_SignerInfos = None\<rparr> \<and>
   openssl_asn1_known_oid demo_ext [9] = OID_OTHER 9 \<and>
   parse demo_ext [0x30, 9, 5] = None \<and>
   openssl_pkcs7_load demo_ext CONTAINER_OTHER [BUILD_BLOB_ASN1_DER [0x30, 9, 5], BUILD_END] = None"
proof -
  let ?c = "\<lparr>CMS_get0_type = [9], CMS_get0_content = Some (Some (ASN1_STRING [5])),
            CMS_get0_SignerInfos = None\<rparr>"
  have a: "load_args [] [BUILD_BLOB_ASN1_DER [0x31, 2, 5], BUILD_END] = Some [0x31, 2, 5]"
    by simp
  have b: "load_args [] [BUILD_BLOB_ASN1_DER [0x30, 9, 5], BUILD_END] = Some [0x30, 9, 5]"
    by simp
  have d1: "d2i_CMS_bio demo_ext [0x31, 2, 5] = None"
    by (simp add: demo_defs)
  have d2: "d2i_CMS_bio demo_ext [0x30, 9, 5] = Some ?c"
    by (simp add: demo_defs)
  have k: "openssl_asn1_known_oid demo_ext [9] = OID_OTHER 9"
    by (simp add: demo_defs)
  have h1: "d2i_CMS_bio demo_ext [0x31, 2, 5] = None \<or>
         (\<exists>c. d2i_CMS_bio demo_ext [0x31, 2, 5] = Some c \<and>
              openssl_asn1_known_oid demo_ext (CMS_get0_type c) \<noteq> OID_PKCS7_DATA \<and>
              openssl_asn1_known_oid demo_ext (CMS_get0_type c) \<noteq> OID_PKCS7_SIGNED_DATA \<and>
              openssl_asn1_known_oid demo_ext (CMS_get0_type c) \<noteq> OID_PKCS7_ENVELOPED_DATA)"
    using d1 by simp
  have h2: "d2i_CMS_bio demo_ext [0x30, 9, 5] = None \<or>
         (\<exists>c. d2i_CMS_bio demo_ext [0x30, 9, 5] = Some c \<and>
              openssl_asn1_known_oid demo_ext (CMS_get0_type c) \<noteq> OID_PKCS7_DATA \<and>
              openssl_asn1_known_oid demo_ext (CMS_get0_type c) \<noteq> OID_PKCS7_SIGNED_DATA \<and>
              openssl_asn1_known_oid demo_ext (CMS_get0_type c) \<noteq> OID_PKCS7_ENVELOPED_DATA)"
    using d2 k by simp
  show ?thesis
    using d1 d2 k load_fails [OF a h1, of CONTAINER_OTHER] load_fails [OF b h2, of CONTAINER_OTHER]
    by simp
qed

text \<open>
  Claim C5 as stated has the first failure be a malformed encoding and the second an
  unsupported content type. The code gives the caller the same result for a blob that
  does not decode and for a blob of an unsupported type, from \<open>parse\<close> and from
  \<open>openssl_pkcs7_load\<close>.
\<close>

theorem load_failures_indistinguishable:
  "d2i_CMS_bio demo_ext [0x31, 2, 5] = None \<and>
   d2i_CMS_bio demo_ext [0x30, 9, 5] =
     Some \<lparr>CMS_get0_type = [9], CMS_get0_content = Some (Some (ASN1_STRING [5])),
            CMS_get0_SignerInfos = None\<rparr> \<and>
   openssl_asn1_known_oid demo_ext [9] = OID_OTHER 9 \<and>
   parse demo_ext [0x31, 2, 5] = parse demo_ext [0x30, 9, 5] \<and>
   openssl_pkcs7_load demo_ext CONTAINER_OTHER [BUILD_BLOB_ASN1_DER [0x31, 2, 5], BUILD_END] =
     openssl_pkcs7_load demo_ext CONTAINER_OTHER [BUILD_BLOB_ASN1_DER [0x30, 9, 5], BUILD_END]"
  by (simp add: parse_def openssl_pkcs7_load_def demo_defs)

theorem load_type_fixed_witness:
  "\<exists>this. openssl_pkcs7_load demo_ext CONTAINER_OTHER [BUILD_BLOB_ASN1_DER [0x30, 2, 5], BUILD_END] =
            Some this \<and>
     get_type this = CONTAINER_PKCS7_SIGNED_DATA \<and>
     (\<forall>ms this'. container_calls demo_ext this ms = Some this' \<longrightarrow>
        get_type this' = CONTAINER_PKCS7_SIGNED_DATA)"
proof -
  have a: "load_args [] [BUILD_BLOB_ASN1_DER [0x30, 2, 5], BUILD_END] = Some [0x30, 2, 5]"
    by simp
  have b: "[0x30, 2, 5] \<noteq> ([] :: chunk_t)" by simp
  have c: "d2i_CMS_bio demo_ext [0x30, 2, 5] =
     Some \<lparr>CMS_get0_type = [2], CMS_get0_content = Some (Some (ASN1_STRING [5])),
            CMS_get0_SignerInfos = Some []\<rparr>"
    by (simp add: demo_defs)
  have d: "(openssl_asn1_known_oid demo_ext
              (CMS_get0_type \<lparr>CMS_get0_type = [2], CMS_get0_content = Some (Some (ASN1_STRING [5])),
                 CMS_get0_SignerInfos = Some []\<rparr>), CONTAINER_PKCS7_SIGNED_DATA) \<in>
           {(OID_PKCS7_DATA, CONTAINER_PKCS7_DATA),
            (OID_PKCS7_SIGNED_DATA, CONTAINER_PKCS7_SIGNED_DATA),
            (OID_PKCS7_ENVELOPED_DATA, CONTAINER_PKCS7_ENVELOPED_DATA)}"
    by (simp add: demo_defs)
  show ?thesis
    by (rule load_type_fixed [OF a b c d])
qed

text \<open>
  Claim C4. \<open>verify_digest\<close> is to return \<open>TRUE\<close> only if the content octets are
  present. The container below has a content location that holds no string; the signer
  declares the hash of the empty chunk as its message digest, and \<open>verify_digest\<close>
  returns \<open>TRUE\<close>, so that the enumeration yields the signer.
\<close>

theorem absent_content_digest_accepted:
  "CMS_get0_content (pkcs7_cms (demo_detached (Some [demo_signer [4] 8 [0]]))) = Some None \<and>
   verify_digest demo_ext (pkcs7_cms (demo_detached (Some [demo_signer [4] 8 [0]])))
     (demo_signer [4] 8 [0]) (OID_OTHER 10) = (True, []) \<and>
   \<not> spec_digest_binds demo_ext (pkcs7_cms (demo_detached (Some [demo_signer [4] 8 [0]])))
       (demo_signer [4] 8 [0]) (OID_OTHER 10) \<and>
   fst (enumerate_n demo_ext 2
          (create_signature_enumerator (demo_detached (Some [demo_signer [4] 8 [0]])))) =
     [Some (Auth_cfg ''bob''), None]"
  by (simp add: demo_eval spec_eval enum_eval eval_nat_numeral)

text \<open>
  Claim C2. \<open>verify_signature\<close> is to return \<open>NULL\<close> when no issuer and serial number
  can be extracted. The signer below is identified by a subject key identifier:
  \<open>CMS_SignerInfo_get0_signer_id\<close> returns 1 and stores nothing, and
  \<open>verify_signature\<close> resolves the signer from what its locals \<open>name\<close> and \<open>snr\<close>
  held. With the issuer and serial number of an earlier signer left in them it
  returns a clone of the authorization context of \<open>bob\<close>; with no name in them it
  returns \<open>NULL\<close>.
\<close>

theorem keyid_signer_resolved_from_uninitialised_locals:
  "CMS_SignerInfo_get0_signer_id demo_ext
     ((demo_signer [4] 8 [2])\<lparr>sid := CMS_SignerIdentifier [0, 9]\<rparr>) = Signer_id_keyid \<and>
   spec_resolve demo_ext ((demo_signer [4] 8 [2])\<lparr>sid := CMS_SignerIdentifier [0, 9]\<rparr>)
     (OID_OTHER 10) = None \<and>
   verify_signature demo_ext ((demo_signer [4] 8 [2])\<lparr>sid := CMS_SignerIdentifier [0, 9]\<rparr>)
     (OID_OTHER 10) = (Some (Auth_cfg ''bob''), [Auth_clone (Auth_cfg ''bob'')]) \<and>
   verify_signature (demo_ext\<lparr>uninitialised_name := (\<lambda>si. None)\<rparr>)
     ((demo_signer [4] 8 [2])\<lparr>sid := CMS_SignerIdentifier [0, 9]\<rparr>) (OID_OTHER 10) = (None, [])"
  by (simp add: demo_eval spec_eval)

theorem enumerate_yields_accepted_signers_witness:
  "fst (enumerate_n demo_ext 4 (create_signature_enumerator (demo_container (Some
     [demo_signer [4] 9 [2], demo_signer [4] 8 [2], demo_signer [5] 8 [2],
      demo_signer [4] 8 [3], demo_signer [4] 7 [2]])))) =
   [Some (Auth_cfg ''bob''), Some (Auth_cfg ''alice''), None, None]"
proof -
  let ?sk = "[demo_signer [4] 9 [2], demo_signer [4] 8 [2], demo_signer [5] 8 [2],
      demo_signer [4] 8 [3], demo_signer [4] 7 [2]]"
  have a: "pkcs7_type (demo_container (Some ?sk)) = CONTAINER_PKCS7_SIGNED_DATA"
    by (simp add: demo_container_def)
  have b: "CMS_get0_SignerInfos (pkcs7_cms (demo_container (Some ?sk))) = Some ?sk"
    by (simp add: demo_container_def demo_cms_def)
  have c: "CMS_get0_content (pkcs7_cms (demo_container (Some ?sk))) \<noteq> Some None"
    by (simp add: demo_container_def demo_cms_def)
  have d: "\<forall>si \<in> set ?sk.
             openssl_asn1_known_oid demo_ext (signatureAlgorithm si) = OID_RSA_ENCRYPTION \<longrightarrow>
             CMS_SignerInfo_get0_signer_id demo_ext si \<noteq> Signer_id_keyid"
    by (simp add: demo_defs)
  show ?thesis
    using enumerate_yields_accepted_signers [OF a b c d, of 4]
    by (simp add: spec_eval demo_defs eval_nat_numeral)
qed

text \<open>
  Claim C1 as stated counts a signer as valid when its signature verifies and its
  message digest matches. The signer below is valid in that sense, but its signature
  algorithm is not RSA encryption, and the enumeration yields nothing.
\<close>

theorem valid_signer_not_yielded:
  "fst (verify_signature demo_ext (demo_signer [5] 8 [2]) (OID_OTHER 10)) = Some (Auth_cfg ''bob'') \<and>
   fst (verify_digest demo_ext (demo_cms (Some [demo_signer [5] 8 [2]])) (demo_signer [5] 8 [2])
          (OID_OTHER 10)) \<and>
   openssl_asn1_known_oid demo_ext (digestAlgorithm (demo_signer [5] 8 [2])) = OID_OTHER 10 \<and>
   fst (enumerate_n demo_ext 2
          (create_signature_enumerator (demo_container (Some [demo_signer [5] 8 [2]])))) =
     [None, None]"
  by (simp add: demo_eval enum_eval eval_nat_numeral)

theorem digest_mismatch_rejected_witness:
  "signature_round demo_ext [demo_signer [4] 8 [3]]
     \<lparr>enum_signers = Some [demo_signer [4] 8 [3]], enum_i = 0, enum_auth = None,
      enum_cms = demo_cms (Some [demo_signer [4] 8 [3]])\<rparr> =
     (\<lparr>enum_signers = Some [demo_signer [4] 8 [3]], enum_i = 1, enum_auth = Some (Auth_cfg ''bob''),
       enum_cms = demo_cms (Some [demo_signer [4] 8 [3]])\<rparr>, False,
      [Auth_clone (Auth_cfg ''bob''), DBG1 ''invalid messageDigest'' []])"
proof -
  let ?si = "demo_signer [4] 8 [3]"
  let ?en = "\<lparr>enum_signers = Some [?si], enum_i = 0, enum_auth = None,
      enum_cms = demo_cms (Some [?si])\<rparr>"
  let ?h = "\<lparr>allocate_hash = (\<lambda>c. Some [of_nat (length c) :: 8 word])\<rparr>"
  have 1: "openssl_asn1_known_oid demo_ext (signatureAlgorithm ([?si] ! enum_i ?en)) =
             OID_RSA_ENCRYPTION"
    by (simp add: demo_defs)
  have 2: "OID_OTHER 10 = openssl_asn1_known_oid demo_ext (digestAlgorithm ([?si] ! enum_i ?en))"
    by (simp add: demo_defs)
  have 3: "fst (verify_signature demo_ext ([?si] ! enum_i ?en) (OID_OTHER 10)) =
             Some (Auth_cfg ''bob'')"
    by (simp add: demo_eval)
  have 4: "CMS_signed_get0_data_by_OBJ demo_ext ([?si] ! enum_i ?en) NID_pkcs9_messageDigest (- 3)
             V_ASN1_OCTET_STRING = Some (ASN1_STRING [3])"
    by (simp add: demo_defs)
  have 5: "CMS_get0_content (enum_cms ?en) = Some (Some (ASN1_STRING [0xAA, 0xBB]))"
    by (simp add: demo_defs)
  have 6: "create_hasher demo_ext (hasher_algorithm_from_oid demo_ext (OID_OTHER 10)) = Some ?h"
    by (simp add: demo_defs)
  have 7: "allocate_hash ?h (openssl_asn1_str2chunk demo_ext (Some (ASN1_STRING [0xAA, 0xBB]))) =
             Some [2]"
    by (simp add: demo_defs)
  have 8: "openssl_asn1_str2chunk demo_ext (Some (ASN1_STRING [3])) \<noteq> [2]"
    by (simp add: demo_defs)
  have 9: "enum_i ?en < length [?si]"
    by simp
  show ?thesis
    using digest_mismatch_rejected [OF 1 2 3 4 5 6 7 8 9]
    by (simp add: destroy_if_def)
qed

text \<open>
  Claim C3 as stated covers every signer whose signature verifies and whose digest does
  not match. The signer below is one, but its signature algorithm is not RSA
  encryption: the round rejects it before any signature is resolved, and the only line
  logged is the one of the algorithm check.
\<close>

theorem mismatch_rejected_before_digest_check:
  "fst (verify_signature demo_ext (demo_signer [5] 8 [3]) (OID_OTHER 10)) = Some (Auth_cfg ''bob'') \<and>
   verify_digest demo_ext (demo_cms (Some [demo_signer [5] 8 [3]])) (demo_signer [5] 8 [3])
     (OID_OTHER 10) = (False, [DBG1 ''invalid messageDigest'' []]) \<and>
   openssl_asn1_known_oid demo_ext (digestAlgorithm (demo_signer [5] 8 [3])) = OID_OTHER 10 \<and>
   snd (snd (signature_round demo_ext [demo_signer [5] 8 [3]]
     \<lparr>enum_signers = Some [demo_signer [5] 8 [3]], enum_i = 0, enum_auth = None,
      enum_cms = demo_cms (Some [demo_signer [5] 8 [3]])\<rparr>)) =
     [DBG1 ''only RSA digest encryption supported'' []]"
  by (simp add: demo_eval enum_eval)

theorem end_of_sequence_idempotent_witness:
  "enumerate_n demo_ext 3 (create_signature_enumerator
      \<lparr>pkcs7_type = CONTAINER_PKCS7_ENVELOPED_DATA, pkcs7_cms = demo_cms None\<rparr>) =
     (replicate 3 None, Empty_enumerator, []) \<and>
   enumerate_n demo_ext 3 (Signature_enumerator
      \<lparr>enum_signers = Some [demo_signer [4] 8 [2]], enum_i = 1, enum_auth = Some (Auth_cfg ''bob''),
       enum_cms = demo_cms (Some [demo_signer [4] 8 [2]])\<rparr>) =
     (replicate 3 None, Signature_enumerator
      \<lparr>enum_signers = Some [demo_signer [4] 8 [2]], enum_i = 1, enum_auth = Some (Auth_cfg ''bob''),
       enum_cms = demo_cms (Some [demo_signer [4] 8 [2]])\<rparr>, []) \<and>
   enumerate_n demo_ext 3 (Signature_enumerator
      \<lparr>enum_signers = Some [demo_signer [4] 9 [2]], enum_i = 1, enum_auth = None,
       enum_cms = demo_cms (Some [demo_signer [4] 9 [2]])\<rparr>) =
     (replicate 3 None, Signature_enumerator
      \<lparr>enum_signers = Some [demo_signer [4] 9 [2]], enum_i = 1, enum_auth = None,
       enum_cms = demo_cms (Some [demo_signer [4] 9 [2]])\<rparr>, [])"
proof -
  let ?done = "\<lparr>enum_signers = Some [demo_signer [4] 8 [2]], enum_i = 1,
             enum_auth = Some (Auth_cfg ''bob''),
             enum_cms = demo_cms (Some [demo_signer [4] 8 [2]])\<rparr>"
  let ?before = "\<lparr>enum_signers = Some [demo_signer [4] 9 [2]], enum_i = 0, enum_auth = None,
       enum_cms = demo_cms (Some [demo_signer [4] 9 [2]])\<rparr>"
  let ?after = "\<lparr>enum_signers = Some [demo_signer [4] 9 [2]], enum_i = 1, enum_auth = None,
       enum_cms = demo_cms (Some [demo_signer [4] 9 [2]])\<rparr>"
  have e: "enumerate demo_ext (Signature_enumerator ?before) =
             (None, Signature_enumerator ?after,
              [DBG1 ''unable to verify pkcs7 attributes signature'' []])"
    by (simp add: demo_eval enum_eval)
  note t1 = end_of_sequence_idempotent
      [of "\<lparr>pkcs7_type = CONTAINER_PKCS7_ENVELOPED_DATA, pkcs7_cms = demo_cms None\<rparr>"
          demo_ext 3 ?done, THEN conjunct1]
  have x: "enum_signers ?done = Some [demo_signer [4] 8 [2]] \<and>
           length [demo_signer [4] 8 [2]] \<le> enum_i ?done"
    by simp
  note t2 = end_of_sequence_idempotent
      [of "\<lparr>pkcs7_type = CONTAINER_PKCS7_ENVELOPED_DATA, pkcs7_cms = demo_cms None\<rparr>"
          demo_ext 3 ?done, THEN conjunct2, THEN conjunct1, rule_format, OF x]
  note t3 = end_of_sequence_idempotent
      [of "\<lparr>pkcs7_type = CONTAINER_PKCS7_ENVELOPED_DATA, pkcs7_cms = demo_cms None\<rparr>"
          demo_ext 3 ?before, THEN conjunct2, THEN conjunct2, rule_format, OF e]
  show ?thesis
    using t1 t2 t3
    by (simp add: create_signature_enumerator_def enumerator_create_empty_def)
qed

theorem absent_signers_empty_enumeration_witness:
  "enumerate_n demo_ext 3 (create_signature_enumerator (demo_container None)) =
     (replicate 3 None,
      Signature_enumerator \<lparr>enum_signers = None, enum_i = 0, enum_auth = None,
                             enum_cms = demo_cms None\<rparr>, [])"
proof -
  have a: "pkcs7_type (demo_container None) = CONTAINER_PKCS7_SIGNED_DATA"
    by (simp add: demo_container_def)
  have b: "CMS_get0_SignerInfos (pkcs7_cms (demo_container None)) = None"
    by (simp add: demo_container_def demo_cms_def)
  show ?thesis
    using absent_signers_empty_enumeration [OF a b, of demo_ext 3]
    by (simp add: demo_container_def demo_cms_def create_signature_enumerator_def)
qed

theorem at_most_one_in_flight_witness:
  "snd (snd (enumerate_n demo_ext 4 (create_signature_enumerator (demo_container (Some
     [demo_signer [4] 9 [2], demo_signer [4] 8 [2], demo_signer [5] 8 [2],
      demo_signer [4] 8 [3], demo_signer [4] 7 [2]]))))) =
     [DBG1 ''unable to verify pkcs7 attributes signature'' [],
      Auth_clone (Auth_cfg ''bob''), Auth_destroy (Auth_cfg ''bob''),
      DBG1 ''only RSA digest encryption supported'' [],
      Auth_clone (Auth_cfg ''bob''), DBG1 ''invalid messageDigest'' [],
      Auth_destroy (Auth_cfg ''bob''), Auth_clone (Auth_cfg ''alice'')] \<and>
   most_in_flight []
     [DBG1 ''unable to verify pkcs7 attributes signature'' [],
      Auth_clone (Auth_cfg ''bob''), Auth_destroy (Auth_cfg ''bob''),
      DBG1 ''only RSA digest encryption supported'' [],
      Auth_clone (Auth_cfg ''bob''), DBG1 ''invalid messageDigest'' [],
      Auth_destroy (Auth_cfg ''bob''), Auth_clone (Auth_cfg ''alice'')] \<le> 1 \<and>
   in_flight []
     [DBG1 ''unable to verify pkcs7 attributes signature'' [],
      Auth_clone (Auth_cfg ''bob''), Auth_destroy (Auth_cfg ''bob''),
      DBG1 ''only RSA digest encryption supported'' [],
      Auth_clone (Auth_cfg ''bob''), DBG1 ''invalid messageDigest'' [],
      Auth_destroy (Auth_cfg ''bob''), Auth_clone (Auth_cfg ''alice'')] =
     Some [Auth_cfg ''alice'']"
proof -
  let ?c = "demo_container (Some
     [demo_signer [4] 9 [2], demo_signer [4] 8 [2], demo_signer [5] 8 [2],
      demo_signer [4] 8 [3], demo_signer [4] 7 [2]])"
  let ?effs = "[DBG1 ''unable to verify pkcs7 attributes signature'' [],
      Auth_clone (Auth_cfg ''bob''), Auth_destroy (Auth_cfg ''bob''),
      DBG1 ''only RSA digest encryption supported'' [],
      Auth_clone (Auth_cfg ''bob''), DBG1 ''invalid messageDigest'' [],
      Auth_destroy (Auth_cfg ''bob''), Auth_clone (Auth_cfg ''alice'')]"
  have tr: "snd (snd (enumerate_n demo_ext 4 (create_signature_enumerator ?c))) = ?effs"
    and en: "held_by (fst (snd (enumerate_n demo_ext 4 (create_signature_enumerator ?c)))) =
               [Auth_cfg ''alice'']"
    by (simp_all add: demo_eval enum_eval held_by_def eval_nat_numeral)
  show ?thesis
    using tr en at_most_one_in_flight [of demo_ext 4 ?c, THEN conjunct1]
    by (simp add: split_beta)
qed

end
